theory Spec2Isabelle
  imports Main "HOL-Library.Word"
begin

section \<open>The connection core of minecraft/conn.go\<close>

text \<open>
  A shallow embedding of \<^verbatim>\<open>src/minecraft/conn.go\<close>. The struct \<^verbatim>\<open>Conn\<close> is a record,
  each method is a function from the connection to its result and the updated
  connection, every error return is a value of the datatype \<open>error\<close>. The methods are
  modelled as they run on one goroutine: a channel is the list (or the number) of the
  values buffered in it, a send on a full channel and a \<^verbatim>\<open>select\<close> with no ready case
  do not return (the result \<open>None\<close>), and where Go's \<^verbatim>\<open>select\<close> chooses among several
  ready cases the choice is the argument \<open>pick\<close>. Clock readings are arguments.
\<close>

subsection \<open>Bytes, packet IDs and packets\<close>

type_synonym byte = "8 word"
type_synonym bytes = "byte list"

text \<open>
  Modelled from the spec: the numeric constants \<^verbatim>\<open>packet.IDLogin\<close>, ... of package
  \<^verbatim>\<open>packet\<close> are not in the source. The IDs are kept symbolic; \<open>IDOther\<close> stands for
  every other value of the \<^verbatim>\<open>uint32\<close>.
\<close>

datatype packet_id =
    IDLogin
  | IDPlayStatus
  | IDServerToClientHandshake
  | IDClientToServerHandshake
  | IDDisconnect
  | IDResourcePacksInfo
  | IDResourcePackStack
  | IDResourcePackClientResponse
  | IDResourcePackDataInfo
  | IDResourcePackChunkData
  | IDResourcePackChunkRequest
  | IDOther nat

text \<open>The status constants the source names, and any other \<^verbatim>\<open>int32\<close>.\<close>

datatype play_status =
    PlayStatusLoginSuccess
  | PlayStatusLoginFailedClient
  | PlayStatusLoginFailedServer
  | PlayStatusPlayerSpawn
  | PlayStatusLoginFailedInvalidTenant
  | PlayStatusLoginFailedVanillaEdu
  | PlayStatusLoginFailedEduVanilla
  | PlayStatusLoginFailedServerFull
  | PlayStatusOther int

datatype pack_response =
    PackResponseRefused
  | PackResponseSendPacks
  | PackResponseAllPacksDownloaded
  | PackResponseCompleted
  | PackResponseOther nat

text \<open>\<^verbatim>\<open>packet.ResourcePack\<close>, the entry of a pack in ResourcePacksInfo and ResourcePackStack.\<close>

record ResourcePack =
  entryUUID :: string
  entryVersion :: string
  entrySize :: int
  entryHasScripts :: bool

text \<open>
  The packets the source constructs or switches on, with the fields it reads or writes
  (the declarations are in package \<^verbatim>\<open>packet\<close>, outside the source):
  \<^item> \<open>Login ClientProtocol ConnectionRequest\<close>
  \<^item> \<open>PlayStatus Status\<close>
  \<^item> \<open>ServerToClientHandshake JWT\<close>
  \<^item> \<open>ResourcePacksInfo TexturePackRequired HasScripts BehaviourPacks TexturePacks\<close>
  \<^item> \<open>ResourcePackStack TexturePackRequired BehaviourPacks TexturePacks\<close>
  \<^item> \<open>ResourcePackClientResponse Response PacksToDownload\<close>
  \<^item> \<open>ResourcePackDataInfo UUID ChunkSize ChunkCount Size Hash\<close>
  \<^item> \<open>ResourcePackChunkData UUID ChunkIndex DataOffset Data\<close>
  \<^item> \<open>ResourcePackChunkRequest UUID ChunkIndex\<close>
  \<^item> \<open>Unknown PacketID Payload\<close>
  \<^verbatim>\<open>ClientProtocol\<close> and \<^verbatim>\<open>ChunkIndex\<close> are 32-bit integers in the source; they are
  \<open>int\<close> here, and \<^verbatim>\<open>int64(pk.ChunkIndex)*packChunkSize\<close> cannot overflow an \<^verbatim>\<open>int64\<close>.
\<close>

datatype packet =
    Login int bytes
  | PlayStatus play_status
  | ServerToClientHandshake string
  | ClientToServerHandshake
  | Disconnect string
  | ResourcePacksInfo bool bool "ResourcePack list" "ResourcePack list"
  | ResourcePackStack bool "ResourcePack list" "ResourcePack list"
  | ResourcePackClientResponse pack_response "string list"
  | ResourcePackDataInfo string int int int bytes
  | ResourcePackChunkData string int int bytes
  | ResourcePackChunkRequest string int
  | Unknown packet_id bytes

fun ID :: "packet \<Rightarrow> packet_id" where
  "ID (Login _ _) = IDLogin"
| "ID (PlayStatus _) = IDPlayStatus"
| "ID (ServerToClientHandshake _) = IDServerToClientHandshake"
| "ID ClientToServerHandshake = IDClientToServerHandshake"
| "ID (Disconnect _) = IDDisconnect"
| "ID (ResourcePacksInfo _ _ _ _) = IDResourcePacksInfo"
| "ID (ResourcePackStack _ _ _) = IDResourcePackStack"
| "ID (ResourcePackClientResponse _ _) = IDResourcePackClientResponse"
| "ID (ResourcePackDataInfo _ _ _ _ _) = IDResourcePackDataInfo"
| "ID (ResourcePackChunkData _ _ _ _) = IDResourcePackChunkData"
| "ID (ResourcePackChunkRequest _ _) = IDResourcePackChunkRequest"
| "ID (Unknown i _) = i"

subsection \<open>Errors\<close>

text \<open>
  One constructor for each \<^verbatim>\<open>fmt.Errorf\<close> of the source, carrying the wrapped error or
  the values the message prints. \<open>ErrExternal\<close> is an error value of code outside the
  source, \<open>EOF\<close> is \<^verbatim>\<open>io.EOF\<close>, \<open>PanicNilPointer\<close> is the run-time panic of a nil
  dereference.
\<close>

datatype error =
    ErrExternal string
  | EOF
  | PanicNilPointer
  | ErrWritingPacketHeader error
  | ErrReadingPacketHeader error
  | ErrReadTimeout
  | ErrConnectionClosed
  | ErrBufferTooSmall
  | ErrEncodingBatch error
  | ErrDeadlineBeforeNow
  | ErrVerifyingLogin error
  | ErrNotAuthenticated
  | ErrDecodingLogin error
  | ErrInvalidIdentityData error
  | ErrInvalidClientData error
  | ErrEnablingEncryption error
  | ErrSendingPlayStatus error
  | ErrSendingPacksInfo error
  | ErrLookingUpPacks error
  | ErrNoPacksToDownload
  | ErrSendingDataInfo error
  | ErrWritingPackStack error
  | ErrUnknownPackResponse nat
  | ErrUnexpectedUUID string string
  | ErrUnexpectedChunkIndex int int
  | ErrReadingChunk error
  | ErrWritingChunkData error
  | ErrClientOutdated
  | ErrServerOutdated
  | ErrInvalidTenant
  | ErrVanillaEdu
  | ErrEduVanilla
  | ErrServerFull
  | ErrUnknownPlayStatus int
  | ErrMarshalingPublicKey error
  | ErrCreatingJWT error
  | ErrSendingHandshake error

subsection \<open>Resource packs and the pack queue\<close>

text \<open>
  Modelled from the spec: \<^verbatim>\<open>resource.Pack\<close> is not in the source. The spec gives it
  \<^verbatim>\<open>uuid\<close>, \<^verbatim>\<open>version\<close>, \<^verbatim>\<open>len\<close> (total bytes), \<^verbatim>\<open>has_scripts\<close>, \<^verbatim>\<open>has_behaviours\<close> and a
  random-access \<^verbatim>\<open>read_at(dst, offset)\<close> returning the bytes read and a possible
  end-of-stream signal. The pack is its content and its metadata.
\<close>

record Pack =
  UUID :: string
  Version :: string
  content :: bytes
  HasScripts :: bool
  HasBehaviours :: bool
  Checksum :: bytes

definition Len :: "Pack \<Rightarrow> int" where
  "Len p = int (length (content p))"

text \<open>
  Modelled from the spec: \<^verbatim>\<open>ReadAt(b, off)\<close> copies the content from offset \<open>off\<close> into
  \<open>b\<close> and returns the number of bytes read, the error and the buffer. It follows Go's
  \<^verbatim>\<open>io.ReaderAt\<close> over a byte slice: a negative offset is an error, and a read that
  fills less than \<open>b\<close> returns \<^verbatim>\<open>io.EOF\<close> with the bytes that remained.
\<close>

definition ReadAt :: "Pack \<Rightarrow> bytes \<Rightarrow> int \<Rightarrow> nat \<times> error option \<times> bytes" where
  "ReadAt p b off =
     (if off < 0 then (0, Some (ErrExternal ''negative offset''), b)
      else if Len p \<le> off then (0, Some EOF, b)
      else
        let got = take (length b) (drop (nat off) (content p));
            n = length got
        in (n, if n < length b then Some EOF else None, got @ drop n b))"

text \<open>
  Modelled from the spec: the type \<^verbatim>\<open>resourcePackQueue\<close> and its methods are not in the
  source, which reads and writes the fields \<^verbatim>\<open>packs\<close>, \<^verbatim>\<open>currentPack\<close> and
  \<^verbatim>\<open>currentOffset\<close>. \<open>packsToDownload\<close> is the spec's download queue, in the client's
  requested order.
\<close>

record resourcePackQueue =
  packs :: "Pack list"
  currentPack :: "Pack option"
  currentOffset :: int
  packsToDownload :: "Pack list"

text \<open>\<^verbatim>\<open>packChunkSize = 1024 * 512\<close>.\<close>

definition packChunkSize :: int where
  "packChunkSize = 1024 * 512"

text \<open>
  Modelled from the spec: \<^verbatim>\<open>Request(ids)\<close> validates that every requested pack UUID
  exists in the offered list and builds the download queue in the client's requested
  order; it fails with the unknown UUID otherwise.
\<close>

fun lookup_packs :: "Pack list \<Rightarrow> string list \<Rightarrow> error + Pack list" where
  "lookup_packs ps [] = Inr []"
| "lookup_packs ps (u # us) =
     (case find (\<lambda>p. UUID p = u) ps of
        None \<Rightarrow> Inl (ErrExternal (''resource pack not found: '' @ u))
      | Some p \<Rightarrow>
          (case lookup_packs ps us of
             Inl e \<Rightarrow> Inl e
           | Inr qs \<Rightarrow> Inr (p # qs)))"

definition Request :: "resourcePackQueue \<Rightarrow> string list \<Rightarrow> error option \<times> resourcePackQueue" where
  "Request q ids =
     (case lookup_packs (packs q) ids of
        Inl e \<Rightarrow> (Some e, q)
      | Inr ps \<Rightarrow> (None, q\<lparr>packsToDownload := ps\<rparr>))"

text \<open>
  Modelled from the spec: the chunk count of the pack data info is the number of
  chunks of \<open>packChunkSize\<close> bytes that cover the pack.
\<close>

definition DataChunkCount :: "Pack \<Rightarrow> int" where
  "DataChunkCount p =
     (if Len p mod packChunkSize = 0 then Len p div packChunkSize
      else Len p div packChunkSize + 1)"

text \<open>
  Modelled from the spec: \<^verbatim>\<open>NextPack()\<close> advances the cursor to the next queued pack,
  resets \<^verbatim>\<open>current_offset\<close> to 0 and returns the pack data info (UUID, chunk size, chunk
  count, total size, hash); on an empty queue it returns \<^verbatim>\<open>ok = false\<close>, here \<open>None\<close>.
\<close>

definition NextPack :: "resourcePackQueue \<Rightarrow> packet option \<times> resourcePackQueue" where
  "NextPack q =
     (case packsToDownload q of
        [] \<Rightarrow> (None, q)
      | p # ps \<Rightarrow>
          (Some (ResourcePackDataInfo (UUID p) packChunkSize (DataChunkCount p) (Len p) (Checksum p)),
           q\<lparr>currentPack := Some p, currentOffset := 0, packsToDownload := ps\<rparr>))"

text \<open>
  Modelled from the spec: \<^verbatim>\<open>AllDownloaded()\<close> holds when the queue is empty and the last
  pack is fully read.
\<close>

definition AllDownloaded :: "resourcePackQueue \<Rightarrow> bool" where
  "AllDownloaded q =
     (packsToDownload q = [] \<and>
      (case currentPack q of None \<Rightarrow> True | Some p \<Rightarrow> Len p \<le> currentOffset q))"

subsection \<open>Keys, the codec and the transport\<close>

text \<open>
  \<^verbatim>\<open>ecdsa.PublicKey\<close> and \<^verbatim>\<open>ecdsa.PrivateKey\<close> of Go's library, with the fields the source
  reads; the coordinates and the scalar are non-negative big integers.
\<close>

datatype curve = P384 | OtherCurve string

record ecdsa_PublicKey =
  Curve :: curve
  X :: nat
  Y :: nat

record ecdsa_PrivateKey =
  PublicKey :: ecdsa_PublicKey
  D :: nat

text \<open>\<^verbatim>\<open>jwt.Header\<close> with the two fields the source sets.\<close>

record jwt_Header =
  Algorithm :: string
  X5U :: string

text \<open>
  One batch handed to the transport by the encoder: the key the encoder encrypted it
  with (\<open>None\<close> while the encoder is in plaintext mode) and the frames of the batch.
\<close>

record Batch =
  batchKey :: "bytes option"
  batchFrames :: "bytes list"

text \<open>
  The transport \<^verbatim>\<open>net.Conn\<close> (Go's standard library, outside the source): the batches
  written to it, the number of calls of its \<^verbatim>\<open>Close\<close>, and whether it has failed for a
  reason of its own. A write on a transport that is closed or has failed returns an
  error and sends nothing, as the contract of \<^verbatim>\<open>net.Conn\<close> says.
\<close>

record NetConn =
  written :: "Batch list"
  closeCalls :: nat
  broken :: bool

definition net_Write :: "NetConn \<Rightarrow> Batch \<Rightarrow> error option \<times> NetConn" where
  "net_Write t b =
     (if broken t \<or> 0 < closeCalls t then (Some (ErrExternal ''write on a closed or failed connection''), t)
      else (None, t\<lparr>written := written t @ [b]\<rparr>))"

definition net_Close :: "NetConn \<Rightarrow> error option \<times> NetConn" where
  "net_Close t =
     (if 0 < closeCalls t then Some (ErrExternal ''use of closed network connection'') else None,
      t\<lparr>closeCalls := Suc (closeCalls t)\<rparr>)"

text \<open>
  Modelled from the spec: \<^verbatim>\<open>packet.Encoder\<close> and \<^verbatim>\<open>packet.Decoder\<close> are not in the
  source. Each is in plaintext mode (\<open>None\<close>) or encrypts with a key; enabling
  encryption moves it from plaintext to encrypted mode, after which it stays enabled.
  \<^verbatim>\<open>Encode\<close> writes its frames to the transport as one batch.
\<close>

record Encoder =
  encKey :: "bytes option"

record Decoder =
  decKey :: "bytes option"

definition Encoder_EnableEncryption :: "Encoder \<Rightarrow> bytes \<Rightarrow> Encoder" where
  "Encoder_EnableEncryption e k = (case encKey e of None \<Rightarrow> e\<lparr>encKey := Some k\<rparr> | Some _ \<Rightarrow> e)"

definition Decoder_EnableEncryption :: "Decoder \<Rightarrow> bytes \<Rightarrow> Decoder" where
  "Decoder_EnableEncryption d k = (case decKey d of None \<Rightarrow> d\<lparr>decKey := Some k\<rparr> | Some _ \<Rightarrow> d)"

definition Encode :: "Encoder \<Rightarrow> NetConn \<Rightarrow> bytes list \<Rightarrow> error option \<times> NetConn" where
  "Encode e t frames = net_Write t \<lparr>batchKey = encKey e, batchFrames = frames\<rparr>"

subsection \<open>Code outside the source, as parameters\<close>

text \<open>
  The functions of the packages \<^verbatim>\<open>protocol\<close>, \<^verbatim>\<open>packet\<close>, \<^verbatim>\<open>login\<close>, \<^verbatim>\<open>jwt\<close> and of Go's
  \<^verbatim>\<open>crypto\<close> library that the source calls; none of them is in the source, and every
  theorem holds for any choice of them.
  \<^item> \<open>CurrentProtocol\<close>: the constant \<^verbatim>\<open>protocol.CurrentProtocol\<close>.
  \<^item> \<open>HeaderWrite\<close>: \<^verbatim>\<open>header.Write(buffer)\<close>, the bytes of the header or its error.
  \<^item> \<open>Marshal\<close>: the bytes \<^verbatim>\<open>pk.Marshal(buffer)\<close> appends.
  \<^item> \<open>HeaderRead\<close>: \<^verbatim>\<open>header.Read(buf)\<close>, the packet ID and the rest of the buffer.
  \<^item> \<open>Verify\<close>, \<open>Decode\<close>, \<open>ValidateIdentity\<close>, \<open>ValidateClient\<close>: \<^verbatim>\<open>login.Verify\<close>,
    \<^verbatim>\<open>login.Decode\<close> and the two \<^verbatim>\<open>Validate\<close> methods.
  \<^item> \<open>MarshalPublicKey\<close>, \<open>jwt_New\<close>: \<^verbatim>\<open>jwt.MarshalPublicKey\<close> and \<^verbatim>\<open>jwt.New\<close>.
  \<^item> \<open>ScalarMult\<close>: \<^verbatim>\<open>Curve.ScalarMult(x, y, k)\<close>; \<open>Sum256\<close>: \<^verbatim>\<open>sha256.Sum256\<close>.
\<close>

type_synonym claims = "(string \<times> string) list"

record env =
  CurrentProtocol :: int
  HeaderWrite :: "packet_id \<Rightarrow> error + bytes"
  Marshal :: "packet \<Rightarrow> bytes"
  HeaderRead :: "bytes \<Rightarrow> error + (packet_id \<times> bytes)"
  Verify :: "bytes \<Rightarrow> error + (ecdsa_PublicKey \<times> bool)"
  Decode :: "bytes \<Rightarrow> error + (claims \<times> claims)"
  ValidateIdentity :: "claims \<Rightarrow> error option"
  ValidateClient :: "claims \<Rightarrow> error option"
  MarshalPublicKey :: "ecdsa_PublicKey \<Rightarrow> error + string"
  jwt_New :: "jwt_Header \<Rightarrow> claims \<Rightarrow> ecdsa_PrivateKey \<Rightarrow> error + string"
  ScalarMult :: "curve \<Rightarrow> nat \<times> nat \<Rightarrow> bytes \<Rightarrow> nat \<times> nat"
  Sum256 :: "bytes \<Rightarrow> bytes"

subsection \<open>Go library functions the source calls\<close>

text \<open>
  \<^verbatim>\<open>big.Int.Bytes()\<close>: the big-endian bytes of the absolute value, with no leading zero
  byte (the empty slice for 0).
\<close>

fun le_bytes :: "nat \<Rightarrow> bytes" where
  "le_bytes n = (if n = 0 then [] else of_nat (n mod 256) # le_bytes (n div 256))"

declare le_bytes.simps [simp del]

definition Bytes :: "nat \<Rightarrow> bytes" where
  "Bytes n = rev (le_bytes n)"

text \<open>
  \<^verbatim>\<open>base64.RawStdEncoding.EncodeToString\<close>: base64 of RFC 4648 without padding, over the
  alphabet given; the standard alphabet ends in \<^verbatim>\<open>+\<close> and \<^verbatim>\<open>/\<close>.
\<close>

definition encodeStd :: string where
  "encodeStd = ''ABCDEFGHIJKLMNOPQRSTUVWXYZabcdefghijklmnopqrstuvwxyz0123456789+/''"

fun raw_encode :: "string \<Rightarrow> bytes \<Rightarrow> string" where
  "raw_encode al (a # b # c # rest) =
     (let v = unat a * 65536 + unat b * 256 + unat c
      in al ! (v div 262144) # al ! (v div 4096 mod 64) # al ! (v div 64 mod 64) # al ! (v mod 64) #
         raw_encode al rest)"
| "raw_encode al [a, b] =
     (let v = unat a * 65536 + unat b * 256
      in [al ! (v div 262144), al ! (v div 4096 mod 64), al ! (v div 64 mod 64)])"
| "raw_encode al [a] =
     (let v = unat a * 65536
      in [al ! (v div 262144), al ! (v div 4096 mod 64)])"
| "raw_encode al [] = []"

definition RawStdEncoding_EncodeToString :: "bytes \<Rightarrow> string" where
  "RawStdEncoding_EncodeToString b = raw_encode encodeStd b"

text \<open>
  \<^verbatim>\<open>time.Time\<close>: the instant in nanoseconds since the zero time (January 1 of year 1,
  UTC) and the location pointer; \<^verbatim>\<open>time.Time{}\<close> is instant 0 with a nil location. The
  \<^verbatim>\<open>==\<close> of the source compares the whole struct, \<^verbatim>\<open>Before\<close> the instants.
\<close>

record Time =
  instant :: int
  location :: "string option"

definition empty_Time :: Time where
  "empty_Time = \<lparr>instant = 0, location = None\<rparr>"

definition Before :: "Time \<Rightarrow> Time \<Rightarrow> bool" where
  "Before t u = (instant t < instant u)"

text \<open>
  \<^verbatim>\<open>t.Sub(u)\<close>: the duration \<open>t - u\<close> in nanoseconds, which Go clamps to the range of an
  \<^verbatim>\<open>int64\<close>.
\<close>

definition Sub :: "Time \<Rightarrow> Time \<Rightarrow> int" where
  "Sub t u =
     (let d = instant t - instant u
      in if d > 2 ^ 63 - 1 then 2 ^ 63 - 1 else if d < - (2 ^ 63) then - (2 ^ 63) else d)"

text \<open>\<^verbatim>\<open>time.Hour\<close>, in nanoseconds.\<close>

definition Hour :: int where
  "Hour = 3600 * 1000000000"

text \<open>
  The channel of \<^verbatim>\<open>time.After\<close>: \<open>NilChan\<close> is the nil channel of a connection whose
  deadline was never set (a receive from it never proceeds), \<open>Pending f\<close> delivers one
  value at the instant \<open>f\<close>, \<open>Drained\<close> has delivered it.
\<close>

datatype deadline_chan = NilChan | Pending int | Drained

text \<open>\<^verbatim>\<open>time.After(d)\<close> called at the instant \<open>now\<close>.\<close>

definition After :: "int \<Rightarrow> int \<Rightarrow> deadline_chan" where
  "After now d = Pending (now + d)"

subsection \<open>The connection\<close>

text \<open>
  The struct \<^verbatim>\<open>Conn\<close>. \<open>conn\<close> is the transport, \<open>pool\<close> maps a packet ID to the
  \<^verbatim>\<open>Unmarshal\<close> of the packet registered for it, \<open>packets\<close> is the channel of inbound
  frames (capacity 32), \<open>close\<close> is the number of values in the channel \<^verbatim>\<open>close\<close>
  (capacity 1). The mutex \<^verbatim>\<open>sendMutex\<close> has no part in a run on one goroutine.
\<close>

record Conn =
  conn :: NetConn
  pool :: "packet_id \<Rightarrow> (bytes \<Rightarrow> error + packet) option"
  encoder :: Encoder
  decoder :: Decoder
  privateKey :: ecdsa_PrivateKey
  salt :: bytes
  packets :: "bytes list"
  readDeadline :: deadline_chan
  bufferedSend :: "bytes list"
  loggedIn :: bool
  expectedID :: packet_id
  resourcePacks :: "Pack list"
  texturePacksRequired :: bool
  packQueue :: "resourcePackQueue option"
  close :: nat

text \<open>
  \<^verbatim>\<open>newConn\<close>, with the generated key and the random salt as arguments. The goroutine
  it starts calls \<open>Flush\<close> at every tick until the close signal; its calls are calls of
  \<open>Flush\<close> in a run.
\<close>

definition newConn :: "NetConn \<Rightarrow> (packet_id \<Rightarrow> (bytes \<Rightarrow> error + packet) option) \<Rightarrow>
    ecdsa_PrivateKey \<Rightarrow> bytes \<Rightarrow> Conn" where
  "newConn t pl key random =
     \<lparr>conn = t, pool = pl, encoder = \<lparr>encKey = None\<rparr>, decoder = \<lparr>decKey = None\<rparr>,
      privateKey = key, salt = random, packets = [], readDeadline = NilChan,
      bufferedSend = [], loggedIn = False, expectedID = IDLogin, resourcePacks = [],
      texturePacksRequired = False, packQueue = None, close = 0\<rparr>"

text \<open>\<^verbatim>\<open>Write\<close>: the frame is appended to the send buffer; the result is \<open>(len(b), nil)\<close>.\<close>

definition Write :: "Conn \<Rightarrow> bytes \<Rightarrow> (nat \<times> error option) \<times> Conn" where
  "Write c b = ((length b, None), c\<lparr>bufferedSend := bufferedSend c @ [b]\<rparr>)"

definition WritePacket :: "env \<Rightarrow> Conn \<Rightarrow> packet \<Rightarrow> error option \<times> Conn" where
  "WritePacket E c pk =
     (case HeaderWrite E (ID pk) of
        Inl e \<Rightarrow> (Some (ErrWritingPacketHeader e), c)
      | Inr header \<Rightarrow>
          (let ((n, err), c') = Write c (header @ Marshal E pk) in (err, c')))"

definition Flush :: "Conn \<Rightarrow> error option \<times> Conn" where
  "Flush c =
     (if 0 < length (bufferedSend c) then
        (case Encode (encoder c) (conn c) (bufferedSend c) of
           (Some e, t) \<Rightarrow> (Some (ErrEncodingBatch e), c\<lparr>conn := t\<rparr>)
         | (None, t) \<Rightarrow> (None, c\<lparr>conn := t, bufferedSend := []\<rparr>))
      else (None, c))"

text \<open>
  \<^verbatim>\<open>Close\<close>. The send \<^verbatim>\<open>conn.close <- true\<close> finds the channel empty, since the guard
  has just read its length as 0.
\<close>

definition Close :: "Conn \<Rightarrow> error option \<times> Conn" where
  "Close c =
     (if close c \<noteq> 0 then (None, c)
      else
        let (_, c1) = Flush c;
            c2 = c1\<lparr>close := Suc (close c1)\<rparr>;
            (err, t) = net_Close (conn c2)
        in (err, c2\<lparr>conn := t\<rparr>))"

text \<open>
  \<^verbatim>\<open>SetReadDeadline\<close>; \<open>now1\<close> is the reading of \<^verbatim>\<open>time.Now()\<close> in the guard, \<open>now2\<close> the
  later reading at which the timer is made.
\<close>

definition SetReadDeadline :: "Conn \<Rightarrow> Time \<Rightarrow> Time \<Rightarrow> Time \<Rightarrow> error option \<times> Conn" where
  "SetReadDeadline c t now1 now2 =
     (if Before t now1 then (Some ErrDeadlineBeforeNow, c)
      else if t = empty_Time then
        (None, c\<lparr>readDeadline := After (instant now2) (Hour * 1000000)\<rparr>)
      else (None, c\<lparr>readDeadline := After (instant now2) (Sub t now2)\<rparr>))"

definition SetDeadline :: "Conn \<Rightarrow> Time \<Rightarrow> Time \<Rightarrow> Time \<Rightarrow> error option \<times> Conn" where
  "SetDeadline c t now1 now2 = SetReadDeadline c t now1 now2"

definition SetWriteDeadline :: "Conn \<Rightarrow> Time \<Rightarrow> error option \<times> Conn" where
  "SetWriteDeadline c t = (None, c)"

subsection \<open>Reading: the select over the three channels\<close>

datatype select_case = RecvPacket | RecvDeadline | RecvClose

text \<open>
  The \<^verbatim>\<open>select\<close> of \<^verbatim>\<open>Read\<close> and \<^verbatim>\<open>ReadPacket\<close> at the instant \<open>now\<close>. A case is ready
  when its channel holds a value; Go chooses among the ready cases at random, here the
  one with index \<open>pick\<close>. With no case ready the select waits: a pending timer then
  fires, and without one the call does not return.
\<close>

definition ready_cases :: "int \<Rightarrow> Conn \<Rightarrow> select_case list" where
  "ready_cases now c =
     (if packets c \<noteq> [] then [RecvPacket] else []) @
     (case readDeadline c of Pending f \<Rightarrow> if f \<le> now then [RecvDeadline] else [] | _ \<Rightarrow> []) @
     (if close c \<noteq> 0 then [RecvClose] else [])"

definition select :: "int \<Rightarrow> nat \<Rightarrow> Conn \<Rightarrow> select_case option" where
  "select now pick c =
     (let ready = ready_cases now c
      in if ready \<noteq> [] then Some (ready ! (pick mod length ready))
         else (case readDeadline c of Pending f \<Rightarrow> Some RecvDeadline | _ \<Rightarrow> None))"

text \<open>The decoding of one frame in \<^verbatim>\<open>ReadPacket\<close>: header, pool lookup, \<^verbatim>\<open>Unmarshal\<close>.\<close>

definition decode_frame :: "env \<Rightarrow> Conn \<Rightarrow> bytes \<Rightarrow> error + packet" where
  "decode_frame E c data =
     (case HeaderRead E data of
        Inl e \<Rightarrow> Inl (ErrReadingPacketHeader e)
      | Inr (pid, buf) \<Rightarrow>
          (case pool c pid of
             None \<Rightarrow> Inr (Unknown pid buf)
           | Some unmarshal \<Rightarrow> unmarshal buf))"

text \<open>
  \<^verbatim>\<open>ReadPacket\<close>. The close case receives the signal and sends it back, which leaves
  the channel as it was.
\<close>

definition ReadPacket :: "env \<Rightarrow> int \<Rightarrow> nat \<Rightarrow> Conn \<Rightarrow> ((error + packet) \<times> Conn) option" where
  "ReadPacket E now pick c =
     (case select now pick c of
        None \<Rightarrow> None
      | Some RecvPacket \<Rightarrow>
          (case packets c of
             [] \<Rightarrow> None
           | data # rest \<Rightarrow> Some (decode_frame E c data, c\<lparr>packets := rest\<rparr>))
      | Some RecvDeadline \<Rightarrow> Some (Inl ErrReadTimeout, c\<lparr>readDeadline := Drained\<rparr>)
      | Some RecvClose \<Rightarrow> Some (Inl ErrConnectionClosed, c))"

text \<open>
  \<^verbatim>\<open>Read\<close> into the buffer \<open>b\<close>: the result is \<open>n\<close>, the error and the buffer after the
  copy.
\<close>

definition Read :: "int \<Rightarrow> nat \<Rightarrow> Conn \<Rightarrow> bytes \<Rightarrow> ((nat \<times> error option \<times> bytes) \<times> Conn) option" where
  "Read now pick c b =
     (case select now pick c of
        None \<Rightarrow> None
      | Some RecvPacket \<Rightarrow>
          (case packets c of
             [] \<Rightarrow> None
           | data # rest \<Rightarrow>
               if length b < length data then Some ((0, Some ErrBufferTooSmall, b), c\<lparr>packets := rest\<rparr>)
               else Some ((length data, None, data @ drop (length data) b), c\<lparr>packets := rest\<rparr>))
      | Some RecvDeadline \<Rightarrow> Some ((0, Some ErrReadTimeout, b), c\<lparr>readDeadline := Drained\<rparr>)
      | Some RecvClose \<Rightarrow> Some ((0, Some ErrConnectionClosed, b), c))"

subsection \<open>The login sequence\<close>

text \<open>
  \<^verbatim>\<open>enableEncryption\<close>: the JWT, the handshake packet, the flush, the shared secret, the
  key, and the two \<^verbatim>\<open>EnableEncryption\<close> calls, in the order of the source.
\<close>

definition enableEncryption :: "env \<Rightarrow> Conn \<Rightarrow> ecdsa_PublicKey \<Rightarrow> error option \<times> Conn" where
  "enableEncryption E c clientPublicKey =
     (case MarshalPublicKey E (PublicKey (privateKey c)) of
        Inl e \<Rightarrow> (Some (ErrMarshalingPublicKey e), c)
      | Inr pubKey \<Rightarrow>
          (let header = \<lparr>Algorithm = ''ES384'', X5U = pubKey\<rparr>;
               payload = [(''salt'', RawStdEncoding_EncodeToString (salt c))]
           in case jwt_New E header payload (privateKey c) of
                Inl e \<Rightarrow> (Some (ErrCreatingJWT e), c)
              | Inr serverJWT \<Rightarrow>
                  (case WritePacket E c (ServerToClientHandshake serverJWT) of
                     (Some e, c1) \<Rightarrow> (Some (ErrSendingHandshake e), c1)
                   | (None, c1) \<Rightarrow>
                       (let (_, c2) = Flush c1;
                            (x, _) = ScalarMult E (Curve clientPublicKey)
                                       (X clientPublicKey, Y clientPublicKey) (Bytes (D (privateKey c2)));
                            sharedSecret = Bytes x;
                            keyBytes = Sum256 E (salt c2 @ sharedSecret)
                        in (None, c2\<lparr>encoder := Encoder_EnableEncryption (encoder c2) keyBytes,
                                      decoder := Decoder_EnableEncryption (decoder c2) keyBytes\<rparr>)))))"

definition handleLogin :: "env \<Rightarrow> Conn \<Rightarrow> int \<Rightarrow> bytes \<Rightarrow> error option \<times> Conn" where
  "handleLogin E c ClientProtocol ConnectionRequest =
     (let c1 = c\<lparr>expectedID := IDClientToServerHandshake\<rparr>
      in if ClientProtocol \<noteq> CurrentProtocol E then
           (let status = (if ClientProtocol > CurrentProtocol E then PlayStatusLoginFailedServer
                          else PlayStatusLoginFailedClient);
                (_, c2) = WritePacket E c1 (PlayStatus status)
            in Close c2)
         else
           (case Verify E ConnectionRequest of
              Inl e \<Rightarrow> (Some (ErrVerifyingLogin e), c1)
            | Inr (publicKey, authenticated) \<Rightarrow>
                if \<not> authenticated then (Some ErrNotAuthenticated, c1)
                else
                  (case Decode E ConnectionRequest of
                     Inl e \<Rightarrow> (Some (ErrDecodingLogin e), c1)
                   | Inr (identityData, clientData) \<Rightarrow>
                       (case ValidateIdentity E identityData of
                          Some e \<Rightarrow> (Some (ErrInvalidIdentityData e), c1)
                        | None \<Rightarrow>
                            (case ValidateClient E clientData of
                               Some e \<Rightarrow> (Some (ErrInvalidClientData e), c1)
                             | None \<Rightarrow>
                                 (case enableEncryption E c1 publicKey of
                                    (Some e, c2) \<Rightarrow> (Some (ErrEnablingEncryption e), c2)
                                  | (None, c2) \<Rightarrow> (None, c2)))))))"

text \<open>
  The loop of \<^verbatim>\<open>handleClientToServerHandshake\<close> over \<^verbatim>\<open>conn.resourcePacks\<close>; the
  accumulator is \<open>(HasScripts, BehaviourPacks, TexturePacks)\<close> of the packet.
\<close>

fun packs_info :: "Pack list \<Rightarrow> bool \<times> ResourcePack list \<times> ResourcePack list \<Rightarrow>
    bool \<times> ResourcePack list \<times> ResourcePack list" where
  "packs_info [] acc = acc"
| "packs_info (pack # rest) (hs, bps, tps) =
     (let resourcePack = \<lparr>entryUUID = UUID pack, entryVersion = Version pack, entrySize = Len pack,
                          entryHasScripts = HasScripts pack\<rparr>;
          hs' = (hs \<or> HasScripts pack)
      in if HasBehaviours pack then packs_info rest (hs', bps @ [resourcePack], tps)
         else packs_info rest (hs', bps, tps @ [resourcePack]))"

definition handleClientToServerHandshake :: "env \<Rightarrow> Conn \<Rightarrow> error option \<times> Conn" where
  "handleClientToServerHandshake E c =
     (let c1 = c\<lparr>expectedID := IDResourcePackClientResponse\<rparr>
      in case WritePacket E c1 (PlayStatus PlayStatusLoginSuccess) of
           (Some e, c2) \<Rightarrow> (Some (ErrSendingPlayStatus e), c2)
         | (None, c2) \<Rightarrow>
             (let (hs, bps, tps) = packs_info (resourcePacks c2) (False, [], [])
              in case WritePacket E c2 (ResourcePacksInfo (texturePacksRequired c2) hs bps tps) of
                   (Some e, c3) \<Rightarrow> (Some (ErrSendingPacksInfo e), c3)
                 | (None, c3) \<Rightarrow> (None, c3)))"

definition nextResourcePackDownload :: "env \<Rightarrow> Conn \<Rightarrow> error option \<times> Conn" where
  "nextResourcePackDownload E c =
     (case packQueue c of
        None \<Rightarrow> (Some PanicNilPointer, c)
      | Some q \<Rightarrow>
          (case NextPack q of
             (None, q') \<Rightarrow> (Some ErrNoPacksToDownload, c\<lparr>packQueue := Some q'\<rparr>)
           | (Some pk, q') \<Rightarrow>
               (case WritePacket E (c\<lparr>packQueue := Some q'\<rparr>) pk of
                  (Some e, c1) \<Rightarrow> (Some (ErrSendingDataInfo e), c1)
                | (None, c1) \<Rightarrow> (None, c1\<lparr>expectedID := IDResourcePackChunkRequest\<rparr>))))"

text \<open>The loop of the case \<^verbatim>\<open>PackResponseAllPacksDownloaded\<close>.\<close>

fun packs_stack :: "Pack list \<Rightarrow> ResourcePack list \<times> ResourcePack list \<Rightarrow>
    ResourcePack list \<times> ResourcePack list" where
  "packs_stack [] acc = acc"
| "packs_stack (pack # rest) (bps, tps) =
     (let resourcePack = \<lparr>entryUUID = UUID pack, entryVersion = Version pack, entrySize = 0,
                          entryHasScripts = False\<rparr>
      in if HasBehaviours pack then packs_stack rest (bps @ [resourcePack], tps)
         else packs_stack rest (bps, tps @ [resourcePack]))"

definition handleResourcePackClientResponse ::
    "env \<Rightarrow> Conn \<Rightarrow> pack_response \<Rightarrow> string list \<Rightarrow> error option \<times> Conn" where
  "handleResourcePackClientResponse E c Response PacksToDownload =
     (case Response of
        PackResponseRefused \<Rightarrow> Close c
      | PackResponseSendPacks \<Rightarrow>
          (case Request \<lparr>packs = resourcePacks c, currentPack = None, currentOffset = 0,
                         packsToDownload = []\<rparr> PacksToDownload of
             (Some e, q) \<Rightarrow> (Some (ErrLookingUpPacks e), c\<lparr>packQueue := Some q\<rparr>)
           | (None, q) \<Rightarrow>
               (case nextResourcePackDownload E (c\<lparr>packQueue := Some q\<rparr>) of
                  (Some e, c1) \<Rightarrow> (Some e, c1)
                | (None, c1) \<Rightarrow> (None, c1)))
      | PackResponseAllPacksDownloaded \<Rightarrow>
          (let (bps, tps) = packs_stack (resourcePacks c) ([], [])
           in case WritePacket E c (ResourcePackStack (texturePacksRequired c) bps tps) of
                (Some e, c1) \<Rightarrow> (Some (ErrWritingPackStack e), c1)
              | (None, c1) \<Rightarrow> (None, c1))
      | PackResponseCompleted \<Rightarrow> (None, c\<lparr>loggedIn := True\<rparr>)
      | PackResponseOther v \<Rightarrow> (Some (ErrUnknownPackResponse v), c))"

text \<open>Go's \<^verbatim>\<open>/\<close> on integers truncates towards zero.\<close>

definition go_div :: "int \<Rightarrow> int \<Rightarrow> int" where
  "go_div a b = sgn a * sgn b * (\<bar>a\<bar> div \<bar>b\<bar>)"

text \<open>
  The function deferred in \<^verbatim>\<open>handleResourcePackChunkRequest\<close> when the read reached the
  end of the pack; the error of \<^verbatim>\<open>nextResourcePackDownload\<close> is dropped.
\<close>

definition chunk_deferred :: "env \<Rightarrow> Conn \<Rightarrow> Conn" where
  "chunk_deferred E c =
     (case packQueue c of
        None \<Rightarrow> c
      | Some q \<Rightarrow>
          if \<not> AllDownloaded q then snd (nextResourcePackDownload E c)
          else c\<lparr>expectedID := IDResourcePackClientResponse\<rparr>)"

text \<open>
  \<^verbatim>\<open>handleResourcePackChunkRequest\<close>. A nil \<^verbatim>\<open>packQueue\<close> or \<^verbatim>\<open>currentPack\<close> panics at
  the first dereference. The deferred function runs when the function returns, after
  \<^verbatim>\<open>WritePacket\<close>, also when that returned an error.
\<close>

definition handleResourcePackChunkRequest :: "env \<Rightarrow> Conn \<Rightarrow> string \<Rightarrow> int \<Rightarrow> error option \<times> Conn" where
  "handleResourcePackChunkRequest E c pkUUID ChunkIndex =
     (case packQueue c of
        None \<Rightarrow> (Some PanicNilPointer, c)
      | Some q \<Rightarrow>
          (case currentPack q of
             None \<Rightarrow> (Some PanicNilPointer, c)
           | Some current \<Rightarrow>
               if UUID current \<noteq> pkUUID then (Some (ErrUnexpectedUUID (UUID current) pkUUID), c)
               else if currentOffset q \<noteq> ChunkIndex * packChunkSize then
                 (Some (ErrUnexpectedChunkIndex (go_div (currentOffset q) packChunkSize) ChunkIndex), c)
               else
                 (let DataOffset = currentOffset q;
                      c1 = c\<lparr>packQueue := Some (q\<lparr>currentOffset := currentOffset q + packChunkSize\<rparr>)\<rparr>;
                      (n, err, Data) = ReadAt current (replicate (nat packChunkSize) 0) DataOffset
                  in case err of
                       None \<Rightarrow>
                         (case WritePacket E c1 (ResourcePackChunkData pkUUID ChunkIndex DataOffset Data) of
                            (Some e, c2) \<Rightarrow> (Some (ErrWritingChunkData e), c2)
                          | (None, c2) \<Rightarrow> (None, c2))
                     | Some e \<Rightarrow>
                         if e \<noteq> EOF then (Some (ErrReadingChunk e), c1)
                         else
                           (case WritePacket E c1
                                   (ResourcePackChunkData pkUUID ChunkIndex DataOffset (take n Data)) of
                              (Some e', c2) \<Rightarrow> (Some (ErrWritingChunkData e'), chunk_deferred E c2)
                            | (None, c2) \<Rightarrow> (None, chunk_deferred E c2)))))"

definition handlePlayStatus :: "Conn \<Rightarrow> play_status \<Rightarrow> error option \<times> Conn" where
  "handlePlayStatus c Status =
     (case Status of
        PlayStatusLoginSuccess \<Rightarrow> (None, c)
      | PlayStatusLoginFailedClient \<Rightarrow> (Some ErrClientOutdated, snd (Close c))
      | PlayStatusLoginFailedServer \<Rightarrow> (Some ErrServerOutdated, snd (Close c))
      | PlayStatusPlayerSpawn \<Rightarrow> (None, c)
      | PlayStatusLoginFailedInvalidTenant \<Rightarrow> (Some ErrInvalidTenant, snd (Close c))
      | PlayStatusLoginFailedVanillaEdu \<Rightarrow> (Some ErrVanillaEdu, snd (Close c))
      | PlayStatusLoginFailedEduVanilla \<Rightarrow> (Some ErrEduVanilla, snd (Close c))
      | PlayStatusLoginFailedServerFull \<Rightarrow> (Some ErrServerFull, snd (Close c))
      | PlayStatusOther v \<Rightarrow> (Some (ErrUnknownPlayStatus v), c))"

text \<open>The type switch of \<^verbatim>\<open>handleIncoming\<close>; a packet of any other type falls through.\<close>

definition dispatch :: "env \<Rightarrow> Conn \<Rightarrow> packet \<Rightarrow> error option \<times> Conn" where
  "dispatch E c pk =
     (case pk of
        Login ClientProtocol ConnectionRequest \<Rightarrow> handleLogin E c ClientProtocol ConnectionRequest
      | ClientToServerHandshake \<Rightarrow> handleClientToServerHandshake E c
      | ResourcePackClientResponse Response PacksToDownload \<Rightarrow>
          handleResourcePackClientResponse E c Response PacksToDownload
      | ResourcePackChunkRequest pkUUID ChunkIndex \<Rightarrow> handleResourcePackChunkRequest E c pkUUID ChunkIndex
      | PlayStatus Status \<Rightarrow> handlePlayStatus c Status
      | Disconnect _ \<Rightarrow> Close c
      | _ \<Rightarrow> (None, c))"

text \<open>
  \<^verbatim>\<open>handleIncoming\<close>. The send on \<^verbatim>\<open>conn.packets\<close> does not return while the channel
  holds 32 frames. \<^verbatim>\<open>ReadPacket\<close> then receives the frame at the head of the channel.
\<close>

definition handleIncoming :: "env \<Rightarrow> int \<Rightarrow> nat \<Rightarrow> Conn \<Rightarrow> bytes \<Rightarrow> (error option \<times> Conn) option" where
  "handleIncoming E now pick c data =
     (if 32 \<le> length (packets c) then None
      else
        let c1 = c\<lparr>packets := packets c @ [data]\<rparr>
        in if \<not> loggedIn c1 then
             (case ReadPacket E now pick c1 of
                None \<Rightarrow> None
              | Some (Inl err, c2) \<Rightarrow> Some (Some err, c2)
              | Some (Inr pk, c2) \<Rightarrow>
                  if ID pk \<noteq> expectedID c2 then Some (None, c2)
                  else Some (dispatch E c2 pk))
           else Some (None, c1))"

subsection \<open>Runs of calls on one connection\<close>




subsection \<open>The spec's words, for comparison with the code\<close>



text \<open>The number a byte string denotes when read big-endian.\<close>

definition be_value :: "bytes \<Rightarrow> nat" where
  "be_value bs = foldl (\<lambda>a b. 256 * a + unat b) 0 bs"

text \<open>
  The spec's \<^verbatim>\<open>ECDH_shared_x\<close>: the X coordinate of the scalar multiplication of the
  client's public key by the server's private scalar.
\<close>

definition ECDH_shared_x :: "env \<Rightarrow> ecdsa_PublicKey \<Rightarrow> ecdsa_PrivateKey \<Rightarrow> nat" where
  "ECDH_shared_x E clientPublicKey key =
     fst (ScalarMult E (Curve clientPublicKey) (X clientPublicKey, Y clientPublicKey) (Bytes (D key)))"

subsection \<open>An instance, to run the model on concrete inputs\<close>

text \<open>
  A small instance of the parameters: a one-byte packet header, a login frame that
  carries its protocol number in one byte, and stand-ins for the cryptography (the
  token is the concatenation of its parts, the scalar multiplication is that of the
  natural numbers, the digest is the reversed input). It serves the evaluation of the
  model at concrete inputs only.
\<close>

definition example_header :: "packet_id \<Rightarrow> byte" where
  "example_header i =
     (case i of
        IDLogin \<Rightarrow> 1 | IDPlayStatus \<Rightarrow> 2 | IDServerToClientHandshake \<Rightarrow> 3
      | IDClientToServerHandshake \<Rightarrow> 4 | IDDisconnect \<Rightarrow> 5 | IDResourcePacksInfo \<Rightarrow> 6
      | IDResourcePackStack \<Rightarrow> 7 | IDResourcePackClientResponse \<Rightarrow> 8
      | IDResourcePackDataInfo \<Rightarrow> 82 | IDResourcePackChunkData \<Rightarrow> 83
      | IDResourcePackChunkRequest \<Rightarrow> 84 | IDOther n \<Rightarrow> of_nat n)"

definition example_id :: "byte \<Rightarrow> packet_id" where
  "example_id x =
     (if x = 1 then IDLogin else if x = 4 then IDClientToServerHandshake
      else if x = 8 then IDResourcePackClientResponse else IDOther (unat x))"

definition example_response :: "byte \<Rightarrow> pack_response" where
  "example_response x =
     (if x = 1 then PackResponseRefused else if x = 2 then PackResponseSendPacks
      else if x = 3 then PackResponseAllPacksDownloaded else if x = 4 then PackResponseCompleted
      else PackResponseOther (unat x))"

definition example_pool :: "packet_id \<Rightarrow> (bytes \<Rightarrow> error + packet) option" where
  "example_pool i =
     (case i of
        IDLogin \<Rightarrow>
          Some (\<lambda>b. case b of [] \<Rightarrow> Inl (ErrExternal ''short login'') | p # req \<Rightarrow> Inr (Login (uint p) req))
      | IDClientToServerHandshake \<Rightarrow> Some (\<lambda>b. Inr ClientToServerHandshake)
      | IDResourcePackClientResponse \<Rightarrow>
          Some (\<lambda>b. case b of [] \<Rightarrow> Inl (ErrExternal ''short response'')
                     | r # _ \<Rightarrow> Inr (ResourcePackClientResponse (example_response r) []))
      | _ \<Rightarrow> None)"

definition example_bytes :: "string \<Rightarrow> bytes" where
  "example_bytes str = map (\<lambda>ch. of_nat (of_char ch)) str"

definition example_marshal :: "packet \<Rightarrow> bytes" where
  "example_marshal pk =
     (case pk of
        PlayStatus s \<Rightarrow>
          (case s of PlayStatusLoginSuccess \<Rightarrow> [0] | PlayStatusLoginFailedClient \<Rightarrow> [1]
           | PlayStatusLoginFailedServer \<Rightarrow> [2] | _ \<Rightarrow> [9])
      | ServerToClientHandshake j \<Rightarrow> example_bytes j
      | ResourcePackChunkData u i off d \<Rightarrow> d
      | _ \<Rightarrow> [])"

definition example_client_key :: ecdsa_PublicKey where
  "example_client_key = \<lparr>Curve = P384, X = 11, Y = 13\<rparr>"

definition example_token :: "jwt_Header \<Rightarrow> claims \<Rightarrow> string" where
  "example_token h p = Algorithm h @ ''.'' @ X5U h @ ''.'' @ concat (map (\<lambda>(k, v). k @ ''='' @ v) p)"

definition example_env :: env where
  "example_env =
     \<lparr>CurrentProtocol = 100,
      HeaderWrite = (\<lambda>i. Inr [example_header i]),
      Marshal = example_marshal,
      HeaderRead = (\<lambda>b. case b of [] \<Rightarrow> Inl (ErrExternal ''empty frame'') | x # rest \<Rightarrow> Inr (example_id x, rest)),
      Verify = (\<lambda>req. Inr (example_client_key, True)),
      Decode = (\<lambda>req. Inr ([], [])),
      ValidateIdentity = (\<lambda>d. None),
      ValidateClient = (\<lambda>d. None),
      MarshalPublicKey = (\<lambda>k. Inr ''KEY''),
      jwt_New = (\<lambda>h p k. Inr (example_token h p)),
      ScalarMult = (\<lambda>cv (x, y) k. (x * be_value k, y)),
      Sum256 = rev\<rparr>"

definition example_key :: ecdsa_PrivateKey where
  "example_key = \<lparr>PublicKey = \<lparr>Curve = P384, X = 5, Y = 7\<rparr>, D = 3\<rparr>"

definition example_salt :: bytes where
  "example_salt = [255, 255, 255, 255, 255, 255, 255, 255, 255, 255, 255, 255, 255, 255, 255, 255]"

definition example_conn :: Conn where
  "example_conn = newConn \<lparr>written = [], closeCalls = 0, broken = False\<rparr> example_pool example_key example_salt"

text \<open>A pack of one byte and a pack of one full chunk and one byte.\<close>

definition example_pack :: Pack where
  "example_pack = \<lparr>UUID = ''a'', Version = ''1'', content = [65], HasScripts = False,
                    HasBehaviours = False, Checksum = []\<rparr>"

definition example_big_pack :: Pack where
  "example_big_pack = \<lparr>UUID = ''b'', Version = ''1'', content = replicate 524289 66, HasScripts = False,
                        HasBehaviours = False, Checksum = []\<rparr>"

text \<open>A pack queue in the middle of a download: the big pack is current, the small one queued.\<close>

definition example_queue :: resourcePackQueue where
  "example_queue = \<lparr>packs = [example_pack, example_big_pack], currentPack = Some example_big_pack,
                      currentOffset = 0, packsToDownload = [example_pack]\<rparr>"

definition example_sending :: Conn where
  "example_sending =
     example_conn\<lparr>expectedID := IDResourcePackChunkRequest,
       packQueue := Some (example_queue\<lparr>currentOffset := 524288\<rparr>)\<rparr>"

subsection \<open>A relation for the proofs\<close>


section \<open>Properties\<close>

subsection \<open>The transport after its close\<close>
























subsection \<open>Close\<close>





text \<open>
  \<open>Flush\<close> has no test of its own for a closed connection: after the close it still
  hands the frames buffered since to the encoder, and it is the closed transport that
  refuses them.
\<close>

lemma Flush_after_close:
  assumes "0 < closeCalls (conn c)" and "bufferedSend c \<noteq> []"
  shows "Flush c = (Some (ErrEncodingBatch (ErrExternal ''write on a closed or failed connection'')), c)"
  using assms by (simp add: Flush_def Encode_def net_Write_def)



subsection \<open>Read and the frame that does not fit\<close>

lemma select_packet_only:
  "packets c \<noteq> [] \<Longrightarrow> close c = 0 \<Longrightarrow> readDeadline c = NilChan \<Longrightarrow> select now pick c = Some RecvPacket"
  by (simp add: select_def ready_cases_def)

text \<open>
  Claim C10. When \<^verbatim>\<open>Read(b)\<close> receives from the inbound channel a frame longer than
  \<open>b\<close>, it returns \<open>n = 0\<close> and an error, \<open>b\<close> is untouched, and the frame has left the
  channel: the connection goes on with the frames behind it, so no later \<^verbatim>\<open>Read\<close> or
  \<^verbatim>\<open>ReadPacket\<close> finds the frame.
\<close>

theorem Read_drops_long_frame:
  assumes "select now pick c = Some RecvPacket"
    and "packets c = data # rest"
    and "length b < length data"
  shows "Read now pick c b = Some ((0, Some ErrBufferTooSmall, b), c\<lparr>packets := rest\<rparr>)"
  using assms by (simp add: Read_def)

theorem Read_drops_long_frame_witness:
  "select 0 0 (example_conn\<lparr>packets := [[1, 2, 3], [4]]\<rparr>) = Some RecvPacket \<and>
   Read 0 0 (example_conn\<lparr>packets := [[1, 2, 3], [4]]\<rparr>) [0, 0] =
     Some ((0, Some ErrBufferTooSmall, [0, 0]), example_conn\<lparr>packets := [[4]]\<rparr>) \<and>
   Read 0 0 (example_conn\<lparr>packets := [[4]]\<rparr>) [0, 0] =
     Some ((1, None, [4, 0]), example_conn\<lparr>packets := []\<rparr>)"
proof -
  let ?c = "example_conn\<lparr>packets := [[1, 2, 3], [4]]\<rparr>"
  have s: "select 0 0 ?c = Some RecvPacket"
    by (simp add: select_def ready_cases_def example_conn_def newConn_def)
  have p: "packets ?c = [1, 2, 3] # [[4]]" by simp
  have l: "length [0 :: byte, 0] < length [1 :: byte, 2, 3]" by simp
  have s2: "select 0 0 (example_conn\<lparr>packets := [[4]]\<rparr>) = Some RecvPacket"
    by (simp add: select_def ready_cases_def example_conn_def newConn_def)
  from Read_drops_long_frame[OF s p l] s s2 show ?thesis
    by (simp add: Read_def)
qed

subsection \<open>Frames with an unexpected ID during the login sequence\<close>

lemma decode_frame_packets [simp]: "decode_frame E (c\<lparr>packets := ps\<rparr>) d = decode_frame E c d"
  by (simp add: decode_frame_def split: sum.splits prod.splits)

text \<open>
  Claim C7. While \<open>loggedIn\<close> is false, a frame that \<^verbatim>\<open>handleIncoming\<close> decodes to a
  packet whose ID differs from \<open>expectedID\<close> is dropped: the call returns nil, and the
  connection is as before except that the frame has left the inbound channel. So
  \<open>expectedID\<close>, \<open>loggedIn\<close>, the pack queue and the send buffer are unchanged.
\<close>

theorem handleIncoming_ignores_unexpected:
  assumes "\<not> loggedIn c"
    and "length (packets c) < 32"
    and "packets c @ [data] = d # rest"
    and "select now pick (c\<lparr>packets := d # rest\<rparr>) = Some RecvPacket"
    and "decode_frame E c d = Inr pk"
    and "ID pk \<noteq> expectedID c"
  shows "handleIncoming E now pick c data = Some (None, c\<lparr>packets := rest\<rparr>)"
  using assms by (simp add: handleIncoming_def ReadPacket_def Let_def)

theorem handleIncoming_ignores_unexpected_witness:
  "\<not> loggedIn example_conn \<and>
   decode_frame example_env example_conn [4] = Inr ClientToServerHandshake \<and>
   ID ClientToServerHandshake \<noteq> expectedID example_conn \<and>
   handleIncoming example_env 0 0 example_conn [4] = Some (None, example_conn)"
proof -
  have a: "\<not> loggedIn example_conn" by (simp add: example_conn_def newConn_def)
  have b: "length (packets example_conn) < 32" by (simp add: example_conn_def newConn_def)
  have c: "packets example_conn @ [[4]] = [4] # []" by (simp add: example_conn_def newConn_def)
  have d: "select 0 0 (example_conn\<lparr>packets := [4] # []\<rparr>) = Some RecvPacket"
    by (simp add: select_def ready_cases_def example_conn_def newConn_def)
  have e: "decode_frame example_env example_conn [4] = Inr ClientToServerHandshake"
    by (simp add: decode_frame_def example_env_def example_conn_def newConn_def example_id_def example_pool_def)
  have f: "ID ClientToServerHandshake \<noteq> expectedID example_conn"
    by (simp add: example_conn_def newConn_def)
  have g: "example_conn\<lparr>packets := []\<rparr> = example_conn" by (simp add: example_conn_def newConn_def)
  from handleIncoming_ignores_unexpected[OF a b c d e f] a e f g show ?thesis by simp
qed

subsection \<open>Resource pack chunks\<close>

lemma go_div_nonneg: "0 \<le> a \<Longrightarrow> 0 < b \<Longrightarrow> go_div a b = a div b"
  by (cases "a = 0") (simp_all add: go_div_def)

text \<open>
  Claim C5. A ResourcePackChunkRequest while a pack is being sent, whose UUID differs
  from the current pack's UUID or whose \<open>ChunkIndex * 524288\<close> differs from
  \<open>currentOffset\<close>, makes the handler return an error and leaves the connection as it
  is: no ResourcePackChunkData is written, \<open>currentOffset\<close> and \<open>expectedID\<close> are
  unchanged. The UUID is checked first and its error reports the two UUIDs; the error of
  the index reports \<open>currentOffset / 524288\<close> as the expected index (the quotient of the
  ordinary division, as the offset is not negative) and the index received.
\<close>

theorem chunk_request_mismatch:
  assumes "packQueue c = Some q"
    and "currentPack q = Some current"
    and "UUID current \<noteq> pkUUID \<or> ChunkIndex * 524288 \<noteq> currentOffset q"
  shows "handleResourcePackChunkRequest E c pkUUID ChunkIndex =
           (Some (if UUID current \<noteq> pkUUID then ErrUnexpectedUUID (UUID current) pkUUID
                  else ErrUnexpectedChunkIndex (go_div (currentOffset q) 524288) ChunkIndex), c)
         \<and> (0 \<le> currentOffset q \<longrightarrow> go_div (currentOffset q) 524288 = currentOffset q div 524288)"
  using assms
  by (auto simp add: handleResourcePackChunkRequest_def packChunkSize_def go_div_nonneg)

theorem chunk_request_mismatch_witness:
  "handleResourcePackChunkRequest example_env example_sending ''b'' 2 =
     (Some (ErrUnexpectedChunkIndex 1 2), example_sending) \<and>
   handleResourcePackChunkRequest example_env example_sending ''a'' 1 =
     (Some (ErrUnexpectedUUID ''b'' ''a''), example_sending)"
proof -
  let ?q = "example_queue\<lparr>currentOffset := 524288\<rparr>"
  have a: "packQueue example_sending = Some ?q" by (simp add: example_sending_def)
  have b: "currentPack ?q = Some example_big_pack" by (simp add: example_queue_def)
  have c1: "UUID example_big_pack \<noteq> ''b'' \<or> 2 * 524288 \<noteq> currentOffset ?q" by simp
  have c2: "UUID example_big_pack \<noteq> ''a'' \<or> 1 * 524288 \<noteq> currentOffset ?q"
    by (simp add: example_big_pack_def)
  have g: "go_div 524288 524288 = 1" by (simp add: go_div_def)
  from chunk_request_mismatch[OF a b c1, of example_env] chunk_request_mismatch[OF a b c2, of example_env] g
  show ?thesis by (simp add: example_big_pack_def)
qed

lemma ReadAt_full:
  assumes "0 \<le> off" and "off + int (length b) \<le> Len p" and "b \<noteq> []"
  shows "ReadAt p b off = (length b, None, take (length b) (drop (nat off) (content p)))"
proof -
  from assms have lt: "\<not> Len p \<le> off" by (cases b) auto
  from assms have n: "length (take (length b) (drop (nat off) (content p))) = length b"
    by (simp add: Len_def)
  from assms lt n show ?thesis by (simp add: ReadAt_def Let_def)
qed

lemma ReadAt_rest:
  assumes "0 \<le> off" and "off < Len p" and "Len p < off + int (length b)"
  shows "ReadAt p b off =
           (nat (Len p - off), Some EOF, drop (nat off) (content p) @ drop (nat (Len p - off)) b)"
proof -
  from assms have t: "take (length b) (drop (nat off) (content p)) = drop (nat off) (content p)"
    by (simp add: Len_def)
  from assms have n: "length (drop (nat off) (content p)) = nat (Len p - off)"
    by (simp add: Len_def)
  from assms have l: "nat (Len p - off) < length b" by linarith
  from assms t n l show ?thesis by (simp add: ReadAt_def Let_def)
qed

lemma WritePacket_ok:
  "HeaderWrite E (ID pk) = Inr h \<Longrightarrow>
     WritePacket E c pk = (None, c\<lparr>bufferedSend := bufferedSend c @ [h @ Marshal E pk]\<rparr>)"
  by (simp add: WritePacket_def Write_def)

text \<open>
  Claim C6. For a pack whose size is not a multiple of 524288, the request of the
  chunk at the current offset is answered as follows. A chunk before the last one
  (\<open>ChunkIndex < size div 524288\<close>) carries exactly 524288 bytes, and the connection only
  advances its offset. The last chunk (\<open>ChunkIndex = size div 524288\<close>) carries exactly
  \<open>size mod 524288\<close> bytes; after it, when no requested pack is left, \<open>expectedID\<close>
  becomes ResourcePackClientResponse, and otherwise the data info of the next queued
  pack is written behind the chunk and \<open>expectedID\<close> stays ResourcePackChunkRequest.
\<close>

theorem chunk_sizes:
  assumes q: "packQueue c = Some q"
    and p: "currentPack q = Some p"
    and u: "UUID p = pkUUID"
    and off: "currentOffset q = ChunkIndex * 524288"
    and idx: "0 \<le> ChunkIndex"
    and size: "Len p mod 524288 \<noteq> 0"
    and exp: "expectedID c = IDResourcePackChunkRequest"
    and h1: "HeaderWrite E IDResourcePackChunkData = Inr h"
    and h2: "HeaderWrite E IDResourcePackDataInfo = Inr h'"
  shows "(ChunkIndex < Len p div 524288 \<longrightarrow>
            length (take 524288 (drop (nat (currentOffset q)) (content p))) = 524288 \<and>
            handleResourcePackChunkRequest E c pkUUID ChunkIndex =
              (None, c\<lparr>packQueue := Some (q\<lparr>currentOffset := currentOffset q + 524288\<rparr>),
                        bufferedSend := bufferedSend c @
                          [h @ Marshal E (ResourcePackChunkData pkUUID ChunkIndex (currentOffset q)
                                 (take 524288 (drop (nat (currentOffset q)) (content p))))]\<rparr>))
       \<and> (ChunkIndex = Len p div 524288 \<longrightarrow>
            int (length (drop (nat (currentOffset q)) (content p))) = Len p mod 524288 \<and>
            (case packsToDownload q of
               [] \<Rightarrow>
                 handleResourcePackChunkRequest E c pkUUID ChunkIndex =
                   (None, c\<lparr>packQueue := Some (q\<lparr>currentOffset := currentOffset q + 524288\<rparr>),
                             bufferedSend := bufferedSend c @
                               [h @ Marshal E (ResourcePackChunkData pkUUID ChunkIndex (currentOffset q)
                                      (drop (nat (currentOffset q)) (content p)))],
                             expectedID := IDResourcePackClientResponse\<rparr>)
             | nxt # others \<Rightarrow>
                 handleResourcePackChunkRequest E c pkUUID ChunkIndex =
                   (None, c\<lparr>packQueue := Some (q\<lparr>currentPack := Some nxt, currentOffset := 0,
                                                   packsToDownload := others\<rparr>),
                             bufferedSend := bufferedSend c @
                               [h @ Marshal E (ResourcePackChunkData pkUUID ChunkIndex (currentOffset q)
                                      (drop (nat (currentOffset q)) (content p))),
                                h' @ Marshal E (ResourcePackDataInfo (UUID nxt) 524288
                                      (DataChunkCount nxt) (Len nxt) (Checksum nxt))],
                             expectedID := IDResourcePackChunkRequest\<rparr>)))"
proof (intro conjI impI)
  let ?off = "currentOffset q"
  let ?buf = "replicate (nat packChunkSize) (0 :: byte)"
  have len: "length ?buf = 524288" by (simp add: packChunkSize_def)
  have off0: "0 \<le> ?off" using off idx by simp
  {
    assume nf: "ChunkIndex < Len p div 524288"
    then have "(ChunkIndex + 1) * 524288 \<le> Len p div 524288 * 524288" by simp
    also have "\<dots> \<le> Len p" by simp
    finally have fits': "?off + 524288 \<le> Len p" using off by (simp add: algebra_simps)
    then have fits: "?off + int (length ?buf) \<le> Len p" by (simp only: len)
    have ne: "?buf \<noteq> []" using len by auto
    have r: "ReadAt p ?buf ?off = (524288, None, take 524288 (drop (nat ?off) (content p)))"
      using ReadAt_full[OF off0 fits ne] by (simp only: len)
    show "length (take 524288 (drop (nat ?off) (content p))) = 524288"
      using fits' off0 by (simp add: Len_def)
    show "handleResourcePackChunkRequest E c pkUUID ChunkIndex =
              (None, c\<lparr>packQueue := Some (q\<lparr>currentOffset := ?off + 524288\<rparr>),
                        bufferedSend := bufferedSend c @
                          [h @ Marshal E (ResourcePackChunkData pkUUID ChunkIndex ?off
                                 (take 524288 (drop (nat ?off) (content p))))]\<rparr>)"
      using q p u off r h1
      by (simp add: handleResourcePackChunkRequest_def Let_def WritePacket_ok)
        (simp add: packChunkSize_def)
  }
  {
    assume fin: "ChunkIndex = Len p div 524288"
    have m: "Len p = ?off + Len p mod 524288" using off fin by (simp add: algebra_simps)
    have mpos: "0 < Len p mod 524288" using size
      by (metis less_le pos_mod_sign zero_less_numeral)
    have mlt: "Len p mod 524288 < 524288" by simp
    have lt: "?off < Len p" using m mpos by linarith
    have over: "Len p < ?off + int (length ?buf)" using m mlt len by linarith
    have n: "nat (Len p - ?off) = length (drop (nat ?off) (content p))"
      using off0 lt by (simp add: Len_def)
    have r: "ReadAt p ?buf ?off =
        (length (drop (nat ?off) (content p)), Some EOF,
         drop (nat ?off) (content p) @ drop (length (drop (nat ?off) (content p))) ?buf)"
      using ReadAt_rest[OF off0 lt over] n by simp
    show sz: "int (length (drop (nat ?off) (content p))) = Len p mod 524288"
      using n m lt by linarith
    let ?c2 = "c\<lparr>packQueue := Some (q\<lparr>currentOffset := ?off + packChunkSize\<rparr>),
                 bufferedSend := bufferedSend c @
                    [h @ Marshal E (ResourcePackChunkData pkUUID ChunkIndex ?off
                           (drop (nat ?off) (content p)))]\<rparr>"
    have hd: "handleResourcePackChunkRequest E c pkUUID ChunkIndex = (None, chunk_deferred E ?c2)"
      using q p u off r h1
      by (simp add: handleResourcePackChunkRequest_def Let_def WritePacket_ok)
        (simp add: packChunkSize_def)
    have all: "AllDownloaded (q\<lparr>currentOffset := ?off + packChunkSize\<rparr>) = (packsToDownload q = [])"
      using p over len by (simp add: AllDownloaded_def packChunkSize_def)
    show "case packsToDownload q of
               [] \<Rightarrow>
                 handleResourcePackChunkRequest E c pkUUID ChunkIndex =
                   (None, c\<lparr>packQueue := Some (q\<lparr>currentOffset := currentOffset q + 524288\<rparr>),
                             bufferedSend := bufferedSend c @
                               [h @ Marshal E (ResourcePackChunkData pkUUID ChunkIndex (currentOffset q)
                                      (drop (nat (currentOffset q)) (content p)))],
                             expectedID := IDResourcePackClientResponse\<rparr>)
             | nxt # others \<Rightarrow>
                 handleResourcePackChunkRequest E c pkUUID ChunkIndex =
                   (None, c\<lparr>packQueue := Some (q\<lparr>currentPack := Some nxt, currentOffset := 0,
                                                   packsToDownload := others\<rparr>),
                             bufferedSend := bufferedSend c @
                               [h @ Marshal E (ResourcePackChunkData pkUUID ChunkIndex (currentOffset q)
                                      (drop (nat (currentOffset q)) (content p))),
                                h' @ Marshal E (ResourcePackDataInfo (UUID nxt) 524288
                                      (DataChunkCount nxt) (Len nxt) (Checksum nxt))],
                             expectedID := IDResourcePackChunkRequest\<rparr>)"
    proof (cases "packsToDownload q")
      case Nil
      with hd all show ?thesis
        by (simp add: chunk_deferred_def packChunkSize_def)
    next
      case (Cons nxt others)
      with hd all h2 exp show ?thesis
        by (simp add: chunk_deferred_def nextResourcePackDownload_def NextPack_def WritePacket_ok)
          (simp add: packChunkSize_def)
    qed
  }
qed

theorem chunk_sizes_witness:
  "Len example_big_pack mod 524288 \<noteq> 0 \<and>
   handleResourcePackChunkRequest example_env (example_conn\<lparr>expectedID := IDResourcePackChunkRequest,
       packQueue := Some example_queue\<rparr>) ''b'' 0 =
     (None, example_conn\<lparr>expectedID := IDResourcePackChunkRequest,
        packQueue := Some (example_queue\<lparr>currentOffset := 524288\<rparr>),
        bufferedSend := [83 # replicate 524288 66]\<rparr>) \<and>
   handleResourcePackChunkRequest example_env (example_conn\<lparr>expectedID := IDResourcePackChunkRequest,
       packQueue := Some (example_queue\<lparr>currentOffset := 524288\<rparr>)\<rparr>) ''b'' 1 =
     (None, example_conn\<lparr>expectedID := IDResourcePackChunkRequest,
        packQueue := Some (example_queue\<lparr>currentPack := Some example_pack, currentOffset := 0,
                                          packsToDownload := []\<rparr>),
        bufferedSend := [[83, 66], [82]]\<rparr>)"
proof -
  let ?c0 = "example_conn\<lparr>expectedID := IDResourcePackChunkRequest, packQueue := Some example_queue\<rparr>"
  let ?q1 = "example_queue\<lparr>currentOffset := 524288\<rparr>"
  let ?c1 = "example_conn\<lparr>expectedID := IDResourcePackChunkRequest, packQueue := Some ?q1\<rparr>"
  have len: "Len example_big_pack = 524289" by (simp add: Len_def example_big_pack_def)
  have size: "Len example_big_pack mod 524288 \<noteq> 0" by (simp add: len)
  have u: "UUID example_big_pack = ''b''" by (simp add: example_big_pack_def)
  have h1: "HeaderWrite example_env IDResourcePackChunkData = Inr [83]"
    by (simp add: example_env_def example_header_def)
  have h2: "HeaderWrite example_env IDResourcePackDataInfo = Inr [82]"
    by (simp add: example_env_def example_header_def)
  have m: "Marshal example_env = example_marshal" by (simp add: example_env_def)
  have q0: "packQueue ?c0 = Some example_queue" by simp
  have p0: "currentPack example_queue = Some example_big_pack" by (simp add: example_queue_def)
  have o0: "currentOffset example_queue = 0 * 524288" by (simp add: example_queue_def)
  have e0: "expectedID ?c0 = IDResourcePackChunkRequest" by simp
  have i0: "(0::int) < Len example_big_pack div 524288" by (simp add: len)
  have q1: "packQueue ?c1 = Some ?q1" by simp
  have p1: "currentPack ?q1 = Some example_big_pack" by (simp add: example_queue_def)
  have o1: "currentOffset ?q1 = 1 * 524288" by simp
  have e1: "expectedID ?c1 = IDResourcePackChunkRequest" by simp
  have i1: "(1::int) = Len example_big_pack div 524288" by (simp add: len)
  have b0: "bufferedSend example_conn = []" by (simp add: example_conn_def newConn_def)
  have first: "handleResourcePackChunkRequest example_env ?c0 ''b'' 0 =
     (None, example_conn\<lparr>expectedID := IDResourcePackChunkRequest,
        packQueue := Some (example_queue\<lparr>currentOffset := 524288\<rparr>),
        bufferedSend := [83 # replicate 524288 66]\<rparr>)"
    using chunk_sizes[OF q0 p0 u o0 _ size e0 h1 h2] i0
    by (simp add: o0) (simp add: m example_marshal_def b0 example_big_pack_def example_queue_def)
  have second: "handleResourcePackChunkRequest example_env ?c1 ''b'' 1 =
     (None, example_conn\<lparr>expectedID := IDResourcePackChunkRequest,
        packQueue := Some (example_queue\<lparr>currentPack := Some example_pack, currentOffset := 0,
                                          packsToDownload := []\<rparr>),
        bufferedSend := [[83, 66], [82]]\<rparr>)"
    using chunk_sizes[OF q1 p1 u o1 _ size e1 h1 h2] i1
    by simp (simp add: m example_marshal_def b0 example_big_pack_def example_queue_def)
  from size first second show ?thesis by blast
qed

subsection \<open>The login sequence, frame by frame\<close>

lemma packets_same: "packets c = ps \<Longrightarrow> c\<lparr>packets := ps\<rparr> = c"
  by (cases c) simp

lemma select_single:
  "close c = 0 \<Longrightarrow> readDeadline c = NilChan \<Longrightarrow> select now pick (c\<lparr>packets := [d]\<rparr>) = Some RecvPacket"
  by (simp add: select_def ready_cases_def)

lemma handleClientToServerHandshake_ok:
  assumes h1: "HeaderWrite E IDPlayStatus = Inr h"
    and h2: "HeaderWrite E IDResourcePacksInfo = Inr h'"
  shows "handleClientToServerHandshake E c = (None, c\<lparr>expectedID := IDResourcePackClientResponse,
                   bufferedSend := bufferedSend c @
                     [h @ Marshal E (PlayStatus PlayStatusLoginSuccess),
                      h' @ Marshal E (case packs_info (resourcePacks c) (False, [], []) of
                              (hs, bps, tps) \<Rightarrow> ResourcePacksInfo (texturePacksRequired c) hs bps tps)]\<rparr>)"
proof -
  obtain hs bps tps where pi: "packs_info (resourcePacks c) (False, [], []) = (hs, bps, tps)"
    by (cases "packs_info (resourcePacks c) (False, [], [])")
  show ?thesis
    using h1 h2 pi by (simp add: handleClientToServerHandshake_def WritePacket_ok Let_def)
qed


lemma decode_frame_pool: "pool c' = pool c \<Longrightarrow> decode_frame E c' d = decode_frame E c d"
  by (simp add: decode_frame_def split: sum.splits prod.splits)

lemma handleIncoming_dispatch:
  assumes "\<not> loggedIn c"
    and "length (packets c) < 32"
    and "packets c @ [data] = d # rest"
    and "select now pick (c\<lparr>packets := d # rest\<rparr>) = Some RecvPacket"
    and "decode_frame E c d = Inr pk"
    and "ID pk = expectedID c"
  shows "handleIncoming E now pick c data = Some (dispatch E (c\<lparr>packets := rest\<rparr>) pk)"
  using assms decode_frame_pool[of "c\<lparr>packets := d # rest\<rparr>" c E d]
  by (simp add: handleIncoming_def ReadPacket_def Let_def)

lemma handleIncoming_first:
  assumes "\<not> loggedIn c"
    and "packets c = []"
    and "close c = 0"
    and "readDeadline c = NilChan"
    and "decode_frame E c d = Inr pk"
    and "ID pk = expectedID c"
  shows "handleIncoming E now pick c d = Some (dispatch E c pk)"
proof -
  have "handleIncoming E now pick c d = Some (dispatch E (c\<lparr>packets := []\<rparr>) pk)"
    using assms select_single[of c now pick d]
    by (intro handleIncoming_dispatch) simp_all
  then show ?thesis using assms(2) by (simp only: packets_same)
qed

text \<open>
  Claim C9. After ClientToServerHandshake the connection has written PlayStatus
  (LoginSuccess) and ResourcePacksInfo and expects ResourcePackClientResponse. A
  ResourcePackClientResponse with the response Completed that comes next is accepted and
  sets \<open>loggedIn\<close>, although no ResourcePackStack was ever written: the send buffer
  holds the two packets only and the transport is as before.
\<close>

theorem completed_without_stack:
  assumes li: "\<not> loggedIn c"
    and ex: "expectedID c = IDClientToServerHandshake"
    and em: "packets c = []"
    and cl: "close c = 0"
    and dl: "readDeadline c = NilChan"
    and d1: "decode_frame E c d1 = Inr ClientToServerHandshake"
    and d2: "decode_frame E c d2 = Inr (ResourcePackClientResponse PackResponseCompleted ps)"
    and h1: "HeaderWrite E IDPlayStatus = Inr h"
    and h2: "HeaderWrite E IDResourcePacksInfo = Inr h'"
  shows "handleIncoming E now pick c d1 =
           Some (None, c\<lparr>expectedID := IDResourcePackClientResponse,
                   bufferedSend := bufferedSend c @
                     [h @ Marshal E (PlayStatus PlayStatusLoginSuccess),
                      h' @ Marshal E (case packs_info (resourcePacks c) (False, [], []) of
                              (hs, bps, tps) \<Rightarrow> ResourcePacksInfo (texturePacksRequired c) hs bps tps)]\<rparr>)
         \<and> handleIncoming E now' pick'
             (c\<lparr>expectedID := IDResourcePackClientResponse,
                   bufferedSend := bufferedSend c @
                     [h @ Marshal E (PlayStatus PlayStatusLoginSuccess),
                      h' @ Marshal E (case packs_info (resourcePacks c) (False, [], []) of
                              (hs, bps, tps) \<Rightarrow> ResourcePacksInfo (texturePacksRequired c) hs bps tps)]\<rparr>) d2 =
           Some (None, c\<lparr>expectedID := IDResourcePackClientResponse,
                   bufferedSend := bufferedSend c @
                     [h @ Marshal E (PlayStatus PlayStatusLoginSuccess),
                      h' @ Marshal E (case packs_info (resourcePacks c) (False, [], []) of
                              (hs, bps, tps) \<Rightarrow> ResourcePacksInfo (texturePacksRequired c) hs bps tps)],
                   loggedIn := True\<rparr>)"
proof -
  let ?info = "case packs_info (resourcePacks c) (False, [], []) of
                 (hs, bps, tps) \<Rightarrow> ResourcePacksInfo (texturePacksRequired c) hs bps tps"
  let ?c1 = "c\<lparr>expectedID := IDResourcePackClientResponse,
                   bufferedSend := bufferedSend c @
                     [h @ Marshal E (PlayStatus PlayStatusLoginSuccess), h' @ Marshal E ?info]\<rparr>"
  have "handleIncoming E now pick c d1 = Some (dispatch E c ClientToServerHandshake)"
    using li em cl dl d1 ex by (intro handleIncoming_first) simp_all
  then have first: "handleIncoming E now pick c d1 = Some (None, ?c1)"
    by (simp only: dispatch_def packet.case handleClientToServerHandshake_ok[OF h1 h2])
  have d2': "decode_frame E ?c1 d2 = Inr (ResourcePackClientResponse PackResponseCompleted ps)"
    using d2 decode_frame_pool[of ?c1 c E d2] by simp
  have "handleIncoming E now' pick' ?c1 d2 =
          Some (dispatch E ?c1 (ResourcePackClientResponse PackResponseCompleted ps))"
    using li em cl dl d2' by (intro handleIncoming_first) simp_all
  then have second: "handleIncoming E now' pick' ?c1 d2 = Some (None, ?c1\<lparr>loggedIn := True\<rparr>)"
    by (simp only: dispatch_def packet.case handleResourcePackClientResponse_def pack_response.case)
  from first second show ?thesis by (simp only: simp_thms)
qed


theorem completed_without_stack_witness:
  "handleIncoming example_env 0 0 (example_conn\<lparr>expectedID := IDClientToServerHandshake\<rparr>) [4] =
     Some (None, example_conn\<lparr>expectedID := IDResourcePackClientResponse, bufferedSend := [[2, 0], [6]]\<rparr>) \<and>
   handleIncoming example_env 0 0
       (example_conn\<lparr>expectedID := IDResourcePackClientResponse, bufferedSend := [[2, 0], [6]]\<rparr>) [8, 4] =
     Some (None, example_conn\<lparr>expectedID := IDResourcePackClientResponse, bufferedSend := [[2, 0], [6]],
                   loggedIn := True\<rparr>)"
proof -
  let ?c = "example_conn\<lparr>expectedID := IDClientToServerHandshake\<rparr>"
  have li: "\<not> loggedIn ?c" by (simp add: example_conn_def newConn_def)
  have ex: "expectedID ?c = IDClientToServerHandshake" by simp
  have em: "packets ?c = []" by (simp add: example_conn_def newConn_def)
  have cl: "close ?c = 0" by (simp add: example_conn_def newConn_def)
  have dl: "readDeadline ?c = NilChan" by (simp add: example_conn_def newConn_def)
  have d1: "decode_frame example_env ?c [4] = Inr ClientToServerHandshake"
    by (simp add: decode_frame_def example_env_def example_conn_def newConn_def example_id_def example_pool_def)
  have d2: "decode_frame example_env ?c [8, 4] = Inr (ResourcePackClientResponse PackResponseCompleted [])"
    by (simp add: decode_frame_def example_env_def example_conn_def newConn_def example_id_def
        example_pool_def example_response_def)
  have h1: "HeaderWrite example_env IDPlayStatus = Inr [2]"
    by (simp add: example_env_def example_header_def)
  have h2: "HeaderWrite example_env IDResourcePacksInfo = Inr [6]"
    by (simp add: example_env_def example_header_def)
  have m: "Marshal example_env = example_marshal" by (simp add: example_env_def)
  have b: "bufferedSend example_conn = []" "resourcePacks example_conn = []"
    by (simp_all add: example_conn_def newConn_def)
  from completed_without_stack[OF li ex em cl dl d1 d2 h1 h2, of 0 0 0 0]
  show ?thesis by (simp add: m example_marshal_def b)
qed

subsection \<open>A login with another protocol version\<close>

lemma Close_open_healthy:
  assumes "close c = 0" and "\<not> broken (conn c)" and "closeCalls (conn c) = 0" and "bufferedSend c \<noteq> []"
  shows "Close c = (None, c\<lparr>conn := (conn c)\<lparr>written := written (conn c) @
                        [\<lparr>batchKey = encKey (encoder c), batchFrames = bufferedSend c\<rparr>], closeCalls := 1\<rparr>,
                      bufferedSend := [], close := 1\<rparr>)"
  using assms by (simp add: Close_def Flush_def Encode_def net_Write_def net_Close_def)

lemma Close_open_fields:
  assumes "close c = 0" and "Close c = (r, c')"
  shows "close c' = 1 \<and> closeCalls (conn c') = Suc (closeCalls (conn c)) \<and> expectedID c' = expectedID c
       \<and> encoder c' = encoder c \<and> decoder c' = decoder c \<and> loggedIn c' = loggedIn c
       \<and> packQueue c' = packQueue c"
  using assms
  by (auto simp add: Close_def Flush_def Encode_def net_Write_def net_Close_def Let_def
      split: if_splits prod.splits)

text \<open>
  Claim C1, as amended. A Login packet received by an open connection that expects
  Login, with a \<open>ClientProtocol\<close> different from \<open>CurrentProtocol\<close>, makes the server
  write PlayStatus with LoginFailedClient when the client protocol is lower and
  LoginFailedServer when it is higher, and then close the connection: the close
  flushes the packet (a healthy transport receives it in one batch), signals close and
  closes the transport. No handshake is sent and the codec is untouched. But
  \<^verbatim>\<open>handleLogin\<close> sets \<open>expectedID\<close> to ClientToServerHandshake before it compares the
  versions, so on this path too \<open>expectedID\<close> is ClientToServerHandshake afterwards.
\<close>

theorem login_protocol_mismatch:
  assumes li: "\<not> loggedIn c"
    and ex: "expectedID c = IDLogin"
    and em: "packets c = []"
    and cl: "close c = 0"
    and dl: "readDeadline c = NilChan"
    and d: "decode_frame E c data = Inr (Login ClientProtocol ConnectionRequest)"
    and ne: "ClientProtocol \<noteq> CurrentProtocol E"
    and h: "HeaderWrite E IDPlayStatus = Inr h"
  shows "handleIncoming E now pick c data =
           Some (Close (c\<lparr>expectedID := IDClientToServerHandshake,
                   bufferedSend := bufferedSend c @
                     [h @ Marshal E (PlayStatus (if ClientProtocol < CurrentProtocol E
                                                 then PlayStatusLoginFailedClient
                                                 else PlayStatusLoginFailedServer))]\<rparr>))
         \<and> (\<exists>r c'. handleIncoming E now pick c data = Some (r, c') \<and>
               expectedID c' = IDClientToServerHandshake \<and> close c' = 1 \<and>
               closeCalls (conn c') = Suc (closeCalls (conn c)) \<and>
               encoder c' = encoder c \<and> decoder c' = decoder c \<and> \<not> loggedIn c')
         \<and> (\<not> broken (conn c) \<and> closeCalls (conn c) = 0 \<longrightarrow>
               handleIncoming E now pick c data =
                 Some (None, c\<lparr>expectedID := IDClientToServerHandshake, bufferedSend := [], close := 1,
                   conn := (conn c)\<lparr>written := written (conn c) @
                     [\<lparr>batchKey = encKey (encoder c),
                       batchFrames = bufferedSend c @
                         [h @ Marshal E (PlayStatus (if ClientProtocol < CurrentProtocol E
                                                     then PlayStatusLoginFailedClient
                                                     else PlayStatusLoginFailedServer))]\<rparr>],
                     closeCalls := 1\<rparr>\<rparr>))"
proof -
  let ?st = "if ClientProtocol < CurrentProtocol E then PlayStatusLoginFailedClient
             else PlayStatusLoginFailedServer"
  let ?c2 = "c\<lparr>expectedID := IDClientToServerHandshake,
                bufferedSend := bufferedSend c @ [h @ Marshal E (PlayStatus ?st)]\<rparr>"
  have "handleIncoming E now pick c data = Some (dispatch E c (Login ClientProtocol ConnectionRequest))"
    using li em cl dl d ex by (intro handleIncoming_first) simp_all
  moreover have "handleLogin E c ClientProtocol ConnectionRequest = Close ?c2"
    using ne h by (auto simp add: handleLogin_def Let_def WritePacket_ok)
  ultimately have first: "handleIncoming E now pick c data = Some (Close ?c2)"
    by (simp add: dispatch_def)
  obtain r c' where rc: "Close ?c2 = (r, c')" by (cases "Close ?c2")
  have cl2: "close ?c2 = 0" using cl by simp
  have fields: "expectedID c' = IDClientToServerHandshake \<and> close c' = 1 \<and>
               closeCalls (conn c') = Suc (closeCalls (conn c)) \<and>
               encoder c' = encoder c \<and> decoder c' = decoder c \<and> \<not> loggedIn c'"
    using Close_open_fields[OF cl2 rc] li by simp
  have second: "\<exists>r c'. handleIncoming E now pick c data = Some (r, c') \<and>
               expectedID c' = IDClientToServerHandshake \<and> close c' = 1 \<and>
               closeCalls (conn c') = Suc (closeCalls (conn c)) \<and>
               encoder c' = encoder c \<and> decoder c' = decoder c \<and> \<not> loggedIn c'"
    using first rc fields by (intro exI[of _ r] exI[of _ c']) (simp only: simp_thms)
  have third: "handleIncoming E now pick c data =
                 Some (None, c\<lparr>expectedID := IDClientToServerHandshake, bufferedSend := [], close := 1,
                   conn := (conn c)\<lparr>written := written (conn c) @
                     [\<lparr>batchKey = encKey (encoder c),
                       batchFrames = bufferedSend c @ [h @ Marshal E (PlayStatus ?st)]\<rparr>],
                     closeCalls := 1\<rparr>\<rparr>)"
    if "\<not> broken (conn c) \<and> closeCalls (conn c) = 0"
  proof -
    have "Close ?c2 = (None, ?c2\<lparr>conn := (conn ?c2)\<lparr>written := written (conn ?c2) @
                        [\<lparr>batchKey = encKey (encoder ?c2), batchFrames = bufferedSend ?c2\<rparr>], closeCalls := 1\<rparr>,
                      bufferedSend := [], close := 1\<rparr>)"
      using that cl by (intro Close_open_healthy) simp_all
    with first show ?thesis by simp
  qed
  from first second third show ?thesis by blast
qed

theorem login_protocol_mismatch_witness:
  "handleIncoming example_env 0 0 example_conn [1, 101] =
     Some (None, example_conn\<lparr>expectedID := IDClientToServerHandshake, close := 1,
       conn := \<lparr>written = [\<lparr>batchKey = None, batchFrames = [[2, 2]]\<rparr>], closeCalls = 1, broken = False\<rparr>\<rparr>)"
proof -
  have li: "\<not> loggedIn example_conn" by (simp add: example_conn_def newConn_def)
  have ex: "expectedID example_conn = IDLogin" by (simp add: example_conn_def newConn_def)
  have em: "packets example_conn = []" by (simp add: example_conn_def newConn_def)
  have cl: "close example_conn = 0" by (simp add: example_conn_def newConn_def)
  have dl: "readDeadline example_conn = NilChan" by (simp add: example_conn_def newConn_def)
  have d: "decode_frame example_env example_conn [1, 101] = Inr (Login 101 [])"
    by (simp add: decode_frame_def example_env_def example_conn_def newConn_def example_id_def example_pool_def)
  have ne: "(101 :: int) \<noteq> CurrentProtocol example_env" by (simp add: example_env_def)
  have h: "HeaderWrite example_env IDPlayStatus = Inr [2]"
    by (simp add: example_env_def example_header_def)
  have m: "Marshal example_env = example_marshal" "CurrentProtocol example_env = 100"
    by (simp_all add: example_env_def)
  have t: "\<not> broken (conn example_conn) \<and> closeCalls (conn example_conn) = 0"
    by (simp add: example_conn_def newConn_def)
  from login_protocol_mismatch[OF li ex em cl dl d ne h, of 0 0] t
  have "handleIncoming example_env 0 0 example_conn [1, 101] =
                 Some (None, example_conn\<lparr>expectedID := IDClientToServerHandshake, bufferedSend := [], close := 1,
                   conn := (conn example_conn)\<lparr>written := written (conn example_conn) @
                     [\<lparr>batchKey = encKey (encoder example_conn),
                       batchFrames = bufferedSend example_conn @
                         [[2] @ Marshal example_env (PlayStatus (if 101 < CurrentProtocol example_env
                                                     then PlayStatusLoginFailedClient
                                                     else PlayStatusLoginFailedServer))]\<rparr>],
                     closeCalls := 1\<rparr>\<rparr>)"
    by blast
  then show ?thesis by (simp add: m example_marshal_def) (simp add: example_conn_def newConn_def)
qed

text \<open>
  The claim as stated fails: after a Login with protocol 99 against 100 the connection
  expects ClientToServerHandshake, and when a ClientToServerHandshake frame follows and
  the select takes it, the closed connection answers it as in a login.
\<close>

theorem login_protocol_mismatch_counterexample:
  "expectedID example_conn = IDLogin \<and>
   handleIncoming example_env 0 0 example_conn [1, 99] =
     Some (None, example_conn\<lparr>expectedID := IDClientToServerHandshake, close := 1,
       conn := \<lparr>written = [\<lparr>batchKey = None, batchFrames = [[2, 1]]\<rparr>], closeCalls = 1, broken = False\<rparr>\<rparr>) \<and>
   handleIncoming example_env 0 0
       (example_conn\<lparr>expectedID := IDClientToServerHandshake, close := 1,
          conn := \<lparr>written = [\<lparr>batchKey = None, batchFrames = [[2, 1]]\<rparr>], closeCalls = 1, broken = False\<rparr>\<rparr>) [4] =
     Some (None, example_conn\<lparr>expectedID := IDResourcePackClientResponse, close := 1,
       bufferedSend := [[2, 0], [6]],
       conn := \<lparr>written = [\<lparr>batchKey = None, batchFrames = [[2, 1]]\<rparr>], closeCalls = 1, broken = False\<rparr>\<rparr>)"
  by (simp add: example_conn_def newConn_def handleIncoming_def ReadPacket_def select_def ready_cases_def
      decode_frame_def example_env_def example_id_def example_pool_def dispatch_def handleLogin_def
      WritePacket_def Write_def example_header_def example_marshal_def Close_def Flush_def Encode_def
      net_Write_def net_Close_def handleClientToServerHandshake_def Let_def)

subsection \<open>The server handshake and the key\<close>


lemma Flush_fields:
  "Flush c = (r, c') \<Longrightarrow>
     encoder c' = encoder c \<and> decoder c' = decoder c \<and> salt c' = salt c \<and> privateKey c' = privateKey c"
  by (auto simp add: Flush_def split: if_splits prod.splits option.splits)

lemma enableEncryption_ok:
  assumes "MarshalPublicKey E (PublicKey (privateKey c)) = Inr x5u"
    and "jwt_New E \<lparr>Algorithm = ''ES384'', X5U = x5u\<rparr>
           [(''salt'', RawStdEncoding_EncodeToString (salt c))] (privateKey c) = Inr serverJWT"
    and "HeaderWrite E IDServerToClientHandshake = Inr h"
    and "Flush (c\<lparr>bufferedSend := bufferedSend c @ [h @ Marshal E (ServerToClientHandshake serverJWT)]\<rparr>) = (r, c2)"
  shows "enableEncryption E c clientPublicKey =
           (None, c2\<lparr>encoder := Encoder_EnableEncryption (encoder c)
                                   (Sum256 E (salt c @ Bytes (ECDH_shared_x E clientPublicKey (privateKey c)))),
                      decoder := Decoder_EnableEncryption (decoder c)
                                   (Sum256 E (salt c @ Bytes (ECDH_shared_x E clientPublicKey (privateKey c))))\<rparr>)"
proof -
  obtain x y where sm: "ScalarMult E (Curve clientPublicKey) (X clientPublicKey, Y clientPublicKey)
                          (Bytes (D (privateKey c))) = (x, y)"
    by (cases "ScalarMult E (Curve clientPublicKey) (X clientPublicKey, Y clientPublicKey)
                          (Bytes (D (privateKey c)))")
  then have sx: "ECDH_shared_x E clientPublicKey (privateKey c) = x" by (simp add: ECDH_shared_x_def)
  from Flush_fields[OF assms(4)]
  have f: "encoder c2 = encoder c" "decoder c2 = decoder c" "salt c2 = salt c" "privateKey c2 = privateKey c"
    by simp_all
  show ?thesis
    using assms(1-3)
    by (simp add: enableEncryption_def Let_def WritePacket_ok assms(4) f sm sx)
qed

lemma handleLogin_verified:
  assumes "ClientProtocol = CurrentProtocol E"
    and "Verify E ConnectionRequest = Inr (publicKey, True)"
    and "Decode E ConnectionRequest = Inr (identityData, clientData)"
    and "ValidateIdentity E identityData = None"
    and "ValidateClient E clientData = None"
    and "enableEncryption E (c\<lparr>expectedID := IDClientToServerHandshake\<rparr>) publicKey = (None, c2)"
  shows "handleLogin E c ClientProtocol ConnectionRequest = (None, c2)"
  using assms by (simp add: handleLogin_def Let_def)






lemma foldr_le_bytes: "foldr (\<lambda>b a. 256 * a + unat b) (le_bytes n) 0 = n"
proof (induction n rule: le_bytes.induct)
  case (1 n)
  show ?case
  proof (cases "n = 0")
    case True
    then show ?thesis by (simp add: le_bytes.simps)
  next
    case False
    have u: "unat (of_nat (n mod 256) :: byte) = n mod 256"
      by (simp add: unat_of_nat)
    from False 1 u show ?thesis
      by (subst le_bytes.simps) simp
  qed
qed

lemma be_value_Bytes: "be_value (Bytes n) = n"
  by (simp add: be_value_def Bytes_def foldl_conv_foldr foldr_le_bytes)

text \<open>
  Claim C3. After a successful Login on a codec in plaintext mode, the encoder and the
  decoder both hold the key \<open>Sum256 (salt || s)\<close>, where \<open>s\<close> is \<^verbatim>\<open>x.Bytes()\<close> for the X
  coordinate \<open>x\<close> of \<^verbatim>\<open>ScalarMult\<close> of the client's public key with \<^verbatim>\<open>D.Bytes()\<close> of
  the server's private scalar \<open>D\<close>. Both byte strings are big-endian: read big-endian
  they denote \<open>x\<close> and \<open>D\<close>.
\<close>

theorem symmetric_key:
  assumes "ClientProtocol = CurrentProtocol E"
    and "Verify E ConnectionRequest = Inr (publicKey, True)"
    and "Decode E ConnectionRequest = Inr (identityData, clientData)"
    and "ValidateIdentity E identityData = None"
    and "ValidateClient E clientData = None"
    and "MarshalPublicKey E (PublicKey (privateKey c)) = Inr x5u"
    and "jwt_New E \<lparr>Algorithm = ''ES384'', X5U = x5u\<rparr>
           [(''salt'', RawStdEncoding_EncodeToString (salt c))] (privateKey c) = Inr serverJWT"
    and "HeaderWrite E IDServerToClientHandshake = Inr h"
    and "encKey (encoder c) = None"
    and "decKey (decoder c) = None"
  shows "\<exists>c'. handleLogin E c ClientProtocol ConnectionRequest = (None, c') \<and>
           encKey (encoder c') =
             Some (Sum256 E (salt c @ Bytes (ECDH_shared_x E publicKey (privateKey c)))) \<and>
           decKey (decoder c') =
             Some (Sum256 E (salt c @ Bytes (ECDH_shared_x E publicKey (privateKey c)))) \<and>
           be_value (Bytes (ECDH_shared_x E publicKey (privateKey c))) =
             ECDH_shared_x E publicKey (privateKey c) \<and>
           be_value (Bytes (D (privateKey c))) = D (privateKey c)"
proof -
  let ?c1 = "c\<lparr>expectedID := IDClientToServerHandshake\<rparr>"
  let ?w = "?c1\<lparr>bufferedSend := bufferedSend ?c1 @ [h @ Marshal E (ServerToClientHandshake serverJWT)]\<rparr>"
  let ?key = "Sum256 E (salt c @ Bytes (ECDH_shared_x E publicKey (privateKey c)))"
  obtain r c2 where fl: "Flush ?w = (r, c2)" by (cases "Flush ?w")
  have en: "enableEncryption E ?c1 publicKey =
           (None, c2\<lparr>encoder := Encoder_EnableEncryption (encoder ?c1)
                         (Sum256 E (salt ?c1 @ Bytes (ECDH_shared_x E publicKey (privateKey ?c1)))),
                      decoder := Decoder_EnableEncryption (decoder ?c1)
                         (Sum256 E (salt ?c1 @ Bytes (ECDH_shared_x E publicKey (privateKey ?c1))))\<rparr>)"
    using assms(6,7,8) fl by (intro enableEncryption_ok) simp_all
  have e1: "encKey (Encoder_EnableEncryption (encoder c) k) = Some k" for k
    using assms(9) by (simp add: Encoder_EnableEncryption_def)
  have e2: "decKey (Decoder_EnableEncryption (decoder c) k) = Some k" for k
    using assms(10) by (simp add: Decoder_EnableEncryption_def)
  from handleLogin_verified[OF assms(1-5) en]
  show ?thesis by (simp add: e1 e2 be_value_Bytes)
qed

theorem symmetric_key_witness:
  "\<exists>c'. handleLogin example_env example_conn 100 [] = (None, c') \<and>
        encKey (encoder c') = Some (33 # example_salt) \<and>
        decKey (decoder c') = Some (33 # example_salt)"
proof -
  have a1: "(100 :: int) = CurrentProtocol example_env" by (simp add: example_env_def)
  have a2: "Verify example_env [] = Inr (example_client_key, True)" by (simp add: example_env_def)
  have a3: "Decode example_env [] = Inr ([], [])" by (simp add: example_env_def)
  have a4: "ValidateIdentity example_env [] = None" by (simp add: example_env_def)
  have a5: "ValidateClient example_env [] = None" by (simp add: example_env_def)
  have a6: "MarshalPublicKey example_env (PublicKey (privateKey example_conn)) = Inr ''KEY''"
    by (simp add: example_env_def)
  have a7: "jwt_New example_env \<lparr>Algorithm = ''ES384'', X5U = ''KEY''\<rparr>
           [(''salt'', RawStdEncoding_EncodeToString (salt example_conn))] (privateKey example_conn) =
           Inr (example_token \<lparr>Algorithm = ''ES384'', X5U = ''KEY''\<rparr>
                  [(''salt'', RawStdEncoding_EncodeToString (salt example_conn))])"
    by (simp add: example_env_def)
  have a8: "HeaderWrite example_env IDServerToClientHandshake = Inr [3]"
    by (simp add: example_env_def example_header_def)
  have a9: "encKey (encoder example_conn) = None" by (simp add: example_conn_def newConn_def)
  have a10: "decKey (decoder example_conn) = None" by (simp add: example_conn_def newConn_def)
  have b3: "Bytes 3 = [3]" by (simp add: Bytes_def le_bytes.simps)
  have b33: "Bytes 33 = [33]" by (simp add: Bytes_def le_bytes.simps)
  have x: "ECDH_shared_x example_env example_client_key (privateKey example_conn) = 33"
    by (simp add: ECDH_shared_x_def example_env_def example_client_key_def example_conn_def newConn_def
        example_key_def b3 be_value_def)
  have k: "Sum256 example_env (salt example_conn @ Bytes 33) = 33 # example_salt"
    by (simp add: example_env_def example_conn_def newConn_def b33) (simp add: example_salt_def)
  from symmetric_key[OF a1 a2 a3 a4 a5 a6 a7 a8 a9 a10]
  show ?thesis by (auto simp add: x k)
qed

subsection \<open>The read deadline\<close>

text \<open>
  The guard of \<^verbatim>\<open>SetReadDeadline\<close> comes first: with a clock after the zero time, the
  zero time is before now, so the call fails before it compares \<open>t\<close> with the empty time.
\<close>

lemma SetReadDeadline_empty_Time:
  "0 < instant now1 \<Longrightarrow> SetReadDeadline c empty_Time now1 now2 = (Some ErrDeadlineBeforeNow, c)"
  by (simp add: SetReadDeadline_def Before_def empty_Time_def)

text \<open>
  Claim C4 says that \<^verbatim>\<open>SetReadDeadline\<close> with the zero time succeeds and clears the
  deadline, as the comment of the method does. The code does not: at a clock reading
  of the year 2026, the call with \<^verbatim>\<open>time.Time{}\<close> returns the error of a deadline before
  now and leaves the connection, and its deadline, as they were.
\<close>

theorem SetReadDeadline_zero_time_fails:
  "SetReadDeadline example_conn empty_Time
     \<lparr>instant = 63900000000000000000, location = Some ''Local''\<rparr>
     \<lparr>instant = 63900000000000000001, location = Some ''Local''\<rparr> =
   (Some ErrDeadlineBeforeNow, example_conn)"
  by (simp add: SetReadDeadline_def Before_def empty_Time_def)

end
